theory Spec2Isabelle
  imports Main
begin

section \<open>Python values\<close>

text \<open>
  A Python \<^verbatim>\<open>str\<close> is a sequence of Unicode code points, so it is modelled as a list of
  natural numbers: slicing, \<^verbatim>\<open>split\<close> and \<^verbatim>\<open>len\<close> count code points, and a \<^verbatim>\<open>str\<close> may
  hold a lone surrogate (U+D800 to U+DFFF), which UTF-8 cannot encode. \<open>lit\<close> writes an
  ASCII literal.
\<close>

type_synonym pystr = "nat list"

abbreviation lit :: "string \<Rightarrow> pystr" where
  "lit s \<equiv> map of_char s"

text \<open>
  The exceptions that the modelled functions raise. \<^verbatim>\<open>UnicodeEncodeError\<close> and
  \<^verbatim>\<open>UnicodeError\<close> are subclasses of \<^verbatim>\<open>ValueError\<close>, so \<^verbatim>\<open>except ValueError\<close> catches
  them too; the three repository exceptions derive from \<^verbatim>\<open>Exception\<close> alone.
\<close>

datatype error =
    InvalidURL
  | InvalidScheme
  | InvalidList
  | ValueError
  | UnicodeEncodeError
  | UnicodeError

fun is_ValueError :: "error \<Rightarrow> bool" where
  "is_ValueError ValueError = True"
| "is_ValueError UnicodeEncodeError = True"
| "is_ValueError UnicodeError = True"
| "is_ValueError _ = False"

text \<open>
  The arguments a caller may pass where a URL is expected: \<^verbatim>\<open>parse_url\<close> tests
  \<^verbatim>\<open>isinstance(url, str)\<close> itself.
\<close>

datatype pyobj = Str pystr | NoneObj | IntObj int | BytesObj "nat list"

text \<open>
  What the Python installation decides and the repository only calls. The tables of the
  Unicode character database beyond ASCII (\<^verbatim>\<open>str.isalnum\<close>, and the decimal digit value
  that \<^verbatim>\<open>int\<close> reads from a character of category Nd), the table \<^verbatim>\<open>uses_params\<close> of
  \<^verbatim>\<open>urllib.parse\<close>, what \<^verbatim>\<open>urlunsplit\<close> makes of a scheme and a path when the netloc is
  empty (CPython releases differ in when they put \<^verbatim>\<open>//\<close> before such a path), the
  validation of a netloc by \<^verbatim>\<open>urlsplit\<close> beyond its bracket test (\<^verbatim>\<open>_check_bracketed_host\<close>
  and \<^verbatim>\<open>_checknetloc\<close>, \<open>True\<close> when they raise \<^verbatim>\<open>ValueError\<close>),
  \<^verbatim>\<open>ipaddress.ip_address(s).is_private\<close> (\<open>None\<close> when \<^verbatim>\<open>ip_address\<close> raises \<^verbatim>\<open>ValueError\<close>)
  and the \<^verbatim>\<open>idna\<close> codec (\<open>None\<close> when it raises \<^verbatim>\<open>UnicodeError\<close>) are parameters: every
  theorem below that does not name the example library holds whatever they are. On
  ASCII the character functions are concrete.
\<close>

record pylib =
  uni_alnum :: "nat \<Rightarrow> bool"
  uni_decimal :: "nat \<Rightarrow> nat option"
  uses_params :: "pystr list"
  unsplit_no_netloc :: "pystr \<Rightarrow> pystr \<Rightarrow> pystr"
  netloc_rejected :: "pystr \<Rightarrow> bool"
  ip_address_is_private :: "pystr \<Rightarrow> bool option"
  idna_encode :: "pystr \<Rightarrow> pystr option"

definition is_digit :: "nat \<Rightarrow> bool" where
  "is_digit c = (48 \<le> c \<and> c \<le> 57)"

definition is_upper :: "nat \<Rightarrow> bool" where
  "is_upper c = (65 \<le> c \<and> c \<le> 90)"

definition is_lower :: "nat \<Rightarrow> bool" where
  "is_lower c = (97 \<le> c \<and> c \<le> 122)"

definition is_alpha :: "nat \<Rightarrow> bool" where
  "is_alpha c = (is_upper c \<or> is_lower c)"

text \<open>\<^verbatim>\<open>c.isalnum()\<close> for one code point.\<close>

definition isalnum_cp :: "pylib \<Rightarrow> nat \<Rightarrow> bool" where
  "isalnum_cp lib c = (if c < 128 then is_alpha c \<or> is_digit c else uni_alnum lib c)"

text \<open>\<^verbatim>\<open>s.isalnum()\<close>: every character is alphanumeric and there is at least one.\<close>

definition isalnum :: "pylib \<Rightarrow> pystr \<Rightarrow> bool" where
  "isalnum lib s = (s \<noteq> [] \<and> list_all (isalnum_cp lib) s)"

text \<open>The value of an ASCII hexadecimal digit (the keys of urllib's \<^verbatim>\<open>_hextobyte\<close>).\<close>

definition hexval :: "nat \<Rightarrow> nat option" where
  "hexval c =
     (if is_digit c then Some (c - 48)
      else if 97 \<le> c \<and> c \<le> 102 then Some (c - 87)
      else if 65 \<le> c \<and> c \<le> 70 then Some (c - 55)
      else None)"

text \<open>
  The digit that \<^verbatim>\<open>int(h, 16)\<close> reads from one character: an ASCII hexadecimal digit, or
  a Unicode decimal digit (which \<^verbatim>\<open>int\<close> first maps to its ASCII digit).
\<close>

definition int_digit :: "pylib \<Rightarrow> nat \<Rightarrow> nat option" where
  "int_digit lib c = (if c < 128 then hexval c else uni_decimal lib c)"

text \<open>
  \<^verbatim>\<open>int(h, 16)\<close> for a string of two alphanumeric characters, the only way the repository
  calls it: there is no sign, blank or underscore, and a prefix \<^verbatim>\<open>0x\<close> with no digit
  after it is invalid like any other non-digit. \<^verbatim>\<open>ValueError\<close> otherwise.
\<close>

definition int16 :: "pylib \<Rightarrow> pystr \<Rightarrow> error + nat" where
  "int16 lib h =
     (case h of
        [a, b] \<Rightarrow>
          (case (int_digit lib a, int_digit lib b) of
             (Some x, Some y) \<Rightarrow> Inr (16 * x + y)
           | _ \<Rightarrow> Inl ValueError)
      | _ \<Rightarrow> Inl ValueError)"

text \<open>\<^verbatim>\<open>chr(n)\<close>: the code point itself, \<^verbatim>\<open>ValueError\<close> beyond U+10FFFF.\<close>

definition chr :: "nat \<Rightarrow> error + nat" where
  "chr n = (if n < 0x110000 then Inr n else Inl ValueError)"

text \<open>\<^verbatim>\<open>s.split(c)\<close> for a separator of one character: never an empty list.\<close>

fun split_on :: "nat \<Rightarrow> pystr \<Rightarrow> pystr list" where
  "split_on c [] = [[]]"
| "split_on c (x # xs) =
     (if x = c then [] # split_on c xs
      else (case split_on c xs of [] \<Rightarrow> [[x]] | p # ps \<Rightarrow> (x # p) # ps))"

text \<open>\<^verbatim>\<open>s.startswith(p)\<close>.\<close>

definition startswith :: "pystr \<Rightarrow> pystr \<Rightarrow> bool" where
  "startswith s p = (take (length p) s = p)"

section \<open>Percent-encoding: \<^verbatim>\<open>urllib.parse.quote\<close> and \<^verbatim>\<open>urllib.parse.unquote\<close>\<close>

text \<open>
  A Unicode scalar value is a code point that is not a surrogate. \<^verbatim>\<open>str.encode("utf-8")\<close>
  with the default \<^verbatim>\<open>errors="strict"\<close> raises \<^verbatim>\<open>UnicodeEncodeError\<close> on anything else.
\<close>

definition scalar_value :: "nat \<Rightarrow> bool" where
  "scalar_value c = (c < 0xD800 \<or> (0xE000 \<le> c \<and> c < 0x110000))"

definition utf8_encode_cp :: "nat \<Rightarrow> error + nat list" where
  "utf8_encode_cp c =
     (if c < 0x80 then Inr [c]
      else if c < 0x800 then Inr [0xC0 + c div 64, 0x80 + c mod 64]
      else if \<not> scalar_value c then Inl UnicodeEncodeError
      else if c < 0x10000 then
        Inr [0xE0 + c div 4096, 0x80 + (c div 64) mod 64, 0x80 + c mod 64]
      else
        Inr [0xF0 + c div 262144, 0x80 + (c div 4096) mod 64,
             0x80 + (c div 64) mod 64, 0x80 + c mod 64])"

fun utf8_encode :: "pystr \<Rightarrow> error + nat list" where
  "utf8_encode [] = Inr []"
| "utf8_encode (c # cs) =
     (case utf8_encode_cp c of
        Inl e \<Rightarrow> Inl e
      | Inr bs \<Rightarrow> (case utf8_encode cs of Inl e \<Rightarrow> Inl e | Inr r \<Rightarrow> Inr (bs @ r)))"

text \<open>
  The bytes \<^verbatim>\<open>quote\<close> never escapes (\<^verbatim>\<open>_ALWAYS_SAFE\<close>): letters, digits and \<^verbatim>\<open>_.-~\<close>.
  It is also the repository's \<^verbatim>\<open>UNRESERVED_SET\<close>.
\<close>

definition UNRESERVED_SET :: "nat \<Rightarrow> bool" where
  "UNRESERVED_SET c = (is_alpha c \<or> is_digit c \<or> c = 45 \<or> c = 46 \<or> c = 95 \<or> c = 126)"

definition hexdigit :: "nat \<Rightarrow> nat" where
  "hexdigit n = (if n < 10 then 48 + n else 55 + n)"

text \<open>
  \<^verbatim>\<open>_Quoter.__missing__\<close>: a safe byte stands for itself, any other byte \<open>b\<close> becomes
  \<^verbatim>\<open>'%{:02X}'.format(b)\<close>.
\<close>

definition quoter :: "pystr \<Rightarrow> nat \<Rightarrow> pystr" where
  "quoter safe b =
     (if UNRESERVED_SET b \<or> b \<in> set safe then [b]
      else [37, hexdigit (b div 16), hexdigit (b mod 16)])"

text \<open>
  \<^verbatim>\<open>urllib.parse.quote(string, safe=safe)\<close> on a \<^verbatim>\<open>str\<close>: the empty string is returned as
  it is, any other is encoded as UTF-8 (strictly) and every byte goes through the
  quoter; non-ASCII characters of \<^verbatim>\<open>safe\<close> are ignored. (The library returns the bytes
  decoded when all of them are safe, which is what the quoter produces as well.)
\<close>

definition quote :: "pystr \<Rightarrow> pystr \<Rightarrow> error + pystr" where
  "quote string safe =
     (if string = [] then Inr string
      else (case utf8_encode string of
              Inl e \<Rightarrow> Inl e
            | Inr bs \<Rightarrow> Inr (concat (map (quoter (filter (\<lambda>c. c < 128) safe)) bs))))"

text \<open>
  \<^verbatim>\<open>urllib.parse.unquote_to_bytes\<close> on an ASCII string: after each \<^verbatim>\<open>%\<close>, two hexadecimal
  digits become one byte; anything else keeps its \<^verbatim>\<open>%\<close>.
\<close>

definition unquote_item :: "nat list \<Rightarrow> nat list" where
  "unquote_item item =
     (case item of
        a # b # rest \<Rightarrow>
          (case (hexval a, hexval b) of
             (Some x, Some y) \<Rightarrow> (16 * x + y) # rest
           | _ \<Rightarrow> 37 # item)
      | _ \<Rightarrow> 37 # item)"

definition unquote_to_bytes :: "pystr \<Rightarrow> nat list" where
  "unquote_to_bytes string =
     (case split_on 37 string of
        [] \<Rightarrow> []
      | b # bits \<Rightarrow> concat (b # map unquote_item bits))"

text \<open>
  \<^verbatim>\<open>bytes.decode("utf-8", "replace")\<close> as CPython does it: an invalid start byte, or a
  lead byte with the valid continuation bytes that follow it up to the first invalid
  one, becomes one U+FFFD, and decoding goes on at the next byte; a sequence cut off by
  the end of the data becomes one U+FFFD.
\<close>

definition is_cont :: "nat \<Rightarrow> bool" where
  "is_cont b = (0x80 \<le> b \<and> b < 0xC0)"

fun utf8_decode_replace :: "nat list \<Rightarrow> pystr" where
  "utf8_decode_replace [] = []"
| "utf8_decode_replace (b # bs) =
     (if b < 0x80 then b # utf8_decode_replace bs
      else if b < 0xC2 then 0xFFFD # utf8_decode_replace bs
      else if b < 0xE0 then
        (case bs of
           [] \<Rightarrow> [0xFFFD]
         | b2 # r2 \<Rightarrow>
             if is_cont b2 then ((b - 0xC0) * 64 + (b2 - 0x80)) # utf8_decode_replace r2
             else 0xFFFD # utf8_decode_replace bs)
      else if b < 0xF0 then
        (case bs of
           [] \<Rightarrow> [0xFFFD]
         | b2 # r2 \<Rightarrow>
             if \<not> is_cont b2 \<or> (if b2 < 0xA0 then b = 0xE0 else b = 0xED)
             then 0xFFFD # utf8_decode_replace bs
             else
               (case r2 of
                  [] \<Rightarrow> [0xFFFD]
                | b3 # r3 \<Rightarrow>
                    if is_cont b3
                    then ((b - 0xE0) * 4096 + (b2 - 0x80) * 64 + (b3 - 0x80))
                           # utf8_decode_replace r3
                    else 0xFFFD # utf8_decode_replace r2))
      else if b < 0xF5 then
        (case bs of
           [] \<Rightarrow> [0xFFFD]
         | b2 # r2 \<Rightarrow>
             if \<not> is_cont b2 \<or> (if b2 < 0x90 then b = 0xF0 else b = 0xF4)
             then 0xFFFD # utf8_decode_replace bs
             else
               (case r2 of
                  [] \<Rightarrow> [0xFFFD]
                | b3 # r3 \<Rightarrow>
                    if \<not> is_cont b3 then 0xFFFD # utf8_decode_replace r2
                    else
                      (case r3 of
                         [] \<Rightarrow> [0xFFFD]
                       | b4 # r4 \<Rightarrow>
                           if is_cont b4
                           then ((b - 0xF0) * 262144 + (b2 - 0x80) * 4096
                                   + (b3 - 0x80) * 64 + (b4 - 0x80))
                                  # utf8_decode_replace r4
                           else 0xFFFD # utf8_decode_replace r3)))
      else 0xFFFD # utf8_decode_replace bs)"

text \<open>
  \<^verbatim>\<open>urllib.parse.unquote(string)\<close> on a \<^verbatim>\<open>str\<close>, with its defaults \<^verbatim>\<open>encoding="utf-8"\<close>
  and \<^verbatim>\<open>errors="replace"\<close>: a string without \<^verbatim>\<open>%\<close> is returned as it is; otherwise each
  maximal run of ASCII characters is unquoted to bytes and decoded, and the characters
  between the runs are kept. \<open>unquote_runs\<close> walks the string with the current run as
  its first argument.
\<close>

definition unquote_run :: "pystr \<Rightarrow> pystr" where
  "unquote_run run = (if run = [] then [] else utf8_decode_replace (unquote_to_bytes run))"

fun unquote_runs :: "pystr \<Rightarrow> pystr \<Rightarrow> pystr" where
  "unquote_runs run [] = unquote_run run"
| "unquote_runs run (c # cs) =
     (if c < 128 then unquote_runs (run @ [c]) cs
      else unquote_run run @ c # unquote_runs [] cs)"

definition unquote :: "pystr \<Rightarrow> pystr" where
  "unquote string = (if 37 \<notin> set string then string else unquote_runs [] string)"

section \<open>\<^verbatim>\<open>unquote_unreserved\<close> and \<^verbatim>\<open>requote_uri\<close>\<close>

text \<open>
  One pass of the loop of \<^verbatim>\<open>unquote_unreserved\<close> over \<^verbatim>\<open>parts[i]\<close>, \<open>i \<ge> 1\<close>. The
  \<^verbatim>\<open>ValueError\<close> of \<^verbatim>\<open>int(h, 16)\<close> (two alphanumeric characters that are not both digits
  in base 16) is not caught here.
\<close>

definition unquote_part :: "pylib \<Rightarrow> pystr \<Rightarrow> error + pystr" where
  "unquote_part lib part =
     (let h = take 2 part in
      if length h = 2 \<and> isalnum lib h then
        (case int16 lib h of
           Inl e \<Rightarrow> Inl e
         | Inr n \<Rightarrow>
             (case chr n of
                Inl e \<Rightarrow> Inl e
              | Inr c \<Rightarrow>
                  if UNRESERVED_SET c then Inr (c # drop 2 part)
                  else Inr (37 # part)))
      else Inr (37 # part))"

fun unquote_parts :: "pylib \<Rightarrow> pystr list \<Rightarrow> error + pystr list" where
  "unquote_parts lib [] = Inr []"
| "unquote_parts lib (p # ps) =
     (case unquote_part lib p of
        Inl e \<Rightarrow> Inl e
      | Inr p' \<Rightarrow>
          (case unquote_parts lib ps of
             Inl e \<Rightarrow> Inl e
           | Inr ps' \<Rightarrow> Inr (p' # ps')))"

definition unquote_unreserved :: "pylib \<Rightarrow> pystr \<Rightarrow> error + pystr" where
  "unquote_unreserved lib uri =
     (case split_on 37 uri of
        [] \<Rightarrow> Inr []
      | p # ps \<Rightarrow>
          (case unquote_parts lib ps of
             Inl e \<Rightarrow> Inl e
           | Inr ps' \<Rightarrow> Inr (concat (p # ps'))))"

definition safe_with_percent :: pystr where
  "safe_with_percent = lit ''!#$%&'' @ [39] @ lit ''()*+,/:;=?@[]~''"

definition safe_without_percent :: pystr where
  "safe_without_percent = lit ''!#$&'' @ [39] @ lit ''()*+,/:;=?@[]~''"

text \<open>
  The characters of a quoted URI: unreserved characters, the reserved characters that
  \<^verbatim>\<open>requote_uri\<close> keeps, and the percent sign.
\<close>

definition uri_char :: "nat \<Rightarrow> bool" where
  "uri_char c = (UNRESERVED_SET c \<or> c \<in> set safe_with_percent)"

text \<open>
  \<^verbatim>\<open>requote_uri\<close>: the \<^verbatim>\<open>try\<close> covers both the unquote pass and the first \<^verbatim>\<open>quote\<close>, and
  \<^verbatim>\<open>except ValueError\<close> catches every subclass of \<^verbatim>\<open>ValueError\<close>; whatever the second
  \<^verbatim>\<open>quote\<close> raises leaves the function.
\<close>

definition requote_uri :: "pylib \<Rightarrow> pystr \<Rightarrow> error + pystr" where
  "requote_uri lib uri =
     (case (case unquote_unreserved lib uri of
              Inl e \<Rightarrow> Inl e
            | Inr u \<Rightarrow> quote u safe_with_percent) of
        Inr r \<Rightarrow> Inr r
      | Inl e \<Rightarrow>
          if is_ValueError e then quote uri safe_without_percent else Inl e)"

text \<open>
  The unquote pass in the words of its description, on the string itself and without
  splitting it. The two characters after a percent sign are an escape when both are
  alphanumeric: its value is the character with that number in base 16, and there is
  none (\<^verbatim>\<open>ValueError\<close>) when the two are not a number in base 16.
\<close>

definition escape_char :: "pylib \<Rightarrow> nat \<Rightarrow> nat \<Rightarrow> (error + nat) option" where
  "escape_char lib a b =
     (if isalnum_cp lib a \<and> isalnum_cp lib b
      then Some (case int16 lib [a, b] of Inl e \<Rightarrow> Inl e | Inr n \<Rightarrow> chr n)
      else None)"

text \<open>Some percent sign of the string is followed by an escape without a value.\<close>

fun bad_escape :: "pylib \<Rightarrow> pystr \<Rightarrow> bool" where
  "bad_escape lib (c # a # b # rest) =
     ((c = 37 \<and> (case escape_char lib a b of Some (Inl e) \<Rightarrow> True | _ \<Rightarrow> False))
      \<or> bad_escape lib (a # b # rest))"
| "bad_escape lib s = False"

text \<open>
  The string with every escape of an unreserved character replaced by that character,
  and everything else, the other escapes too, as it was.
\<close>

fun unreserved_decoded :: "pylib \<Rightarrow> pystr \<Rightarrow> pystr" where
  "unreserved_decoded lib (c # a # b # rest) =
     (case (if c = 37 then escape_char lib a b else None) of
        Some (Inr v) \<Rightarrow>
          if UNRESERVED_SET v then v # unreserved_decoded lib rest
          else c # unreserved_decoded lib (a # b # rest)
      | _ \<Rightarrow> c # unreserved_decoded lib (a # b # rest))"
| "unreserved_decoded lib s = s"

definition unreserved_pass :: "pylib \<Rightarrow> pystr \<Rightarrow> error + pystr" where
  "unreserved_pass lib s =
     (if bad_escape lib s then Inl ValueError else Inr (unreserved_decoded lib s))"

text \<open>A character put in front of a result, an exception left as it is.\<close>

definition cons_result :: "nat \<Rightarrow> error + pystr \<Rightarrow> error + pystr" where
  "cons_result x r = (case r of Inl e \<Rightarrow> Inl e | Inr u \<Rightarrow> Inr (x # u))"

section \<open>URL parsing: \<^verbatim>\<open>urllib.parse.urlparse\<close> and \<^verbatim>\<open>urllib.parse.urlunparse\<close>\<close>

text \<open>
  The library functions as CPython 3.11 defines them. \<^verbatim>\<open>urlsplit\<close> strips leading C0
  control characters and spaces from the URL, removes tab, carriage return and line
  feed, reads a scheme (an ASCII letter first, letters, digits and \<^verbatim>\<open>+-.\<close> up to the
  first colon), a netloc after \<^verbatim>\<open>//\<close>, then the fragment and the query.
\<close>

definition lstrip_c0 :: "pystr \<Rightarrow> pystr" where
  "lstrip_c0 s = dropWhile (\<lambda>c. c \<le> 32) s"

definition strip_c0 :: "pystr \<Rightarrow> pystr" where
  "strip_c0 s = rev (lstrip_c0 (rev (lstrip_c0 s)))"

definition remove_unsafe :: "pystr \<Rightarrow> pystr" where
  "remove_unsafe s = filter (\<lambda>c. c \<noteq> 9 \<and> c \<noteq> 13 \<and> c \<noteq> 10) s"

definition scheme_chars :: "nat \<Rightarrow> bool" where
  "scheme_chars c = (is_alpha c \<or> is_digit c \<or> c = 43 \<or> c = 45 \<or> c = 46)"

text \<open>\<^verbatim>\<open>str.lower\<close>, used on ASCII characters only.\<close>

definition lower_cp :: "nat \<Rightarrow> nat" where
  "lower_cp c = (if is_upper c then c + 32 else c)"

text \<open>\<^verbatim>\<open>s.find(c)\<close>: the first index of \<open>c\<close>, \<open>None\<close> for Python's \<open>-1\<close>.\<close>

definition find_char :: "nat \<Rightarrow> pystr \<Rightarrow> nat option" where
  "find_char c s = (if c \<in> set s then Some (length (takeWhile (\<lambda>x. x \<noteq> c) s)) else None)"

text \<open>\<^verbatim>\<open>s.split(c, 1)\<close> as a pair, for a string that contains \<open>c\<close>.\<close>

definition split1 :: "nat \<Rightarrow> pystr \<Rightarrow> pystr \<times> pystr" where
  "split1 c s = (takeWhile (\<lambda>x. x \<noteq> c) s, drop 1 (dropWhile (\<lambda>x. x \<noteq> c) s))"

definition split_scheme :: "pystr \<Rightarrow> pystr \<Rightarrow> pystr \<times> pystr" where
  "split_scheme url scheme =
     (case find_char 58 url of
        None \<Rightarrow> (scheme, url)
      | Some i \<Rightarrow>
          if 0 < i \<and> is_alpha (hd url) \<and> list_all scheme_chars (take i url)
          then (map lower_cp (take i url), drop (i + 1) url)
          else (scheme, url))"

text \<open>
  What \<open>split_scheme\<close> returns when it finds a scheme in the URL: a letter first,
  scheme characters only, in lower case.
\<close>

definition is_scheme :: "pystr \<Rightarrow> bool" where
  "is_scheme s =
     (s \<noteq> [] \<and> is_alpha (hd s) \<and> list_all scheme_chars s \<and> map lower_cp s = s)"

text \<open>\<^verbatim>\<open>_splitnetloc(url, 2)\<close>: the netloc ends at the first of \<^verbatim>\<open>/?#\<close>.\<close>

definition splitnetloc :: "pystr \<Rightarrow> pystr \<times> pystr" where
  "splitnetloc url =
     (takeWhile (\<lambda>c. c \<noteq> 47 \<and> c \<noteq> 63 \<and> c \<noteq> 35) (drop 2 url),
      dropWhile (\<lambda>c. c \<noteq> 47 \<and> c \<noteq> 63 \<and> c \<noteq> 35) (drop 2 url))"

text \<open>The test behind \<^verbatim>\<open>ValueError("Invalid IPv6 URL")\<close>: one bracket without the other.\<close>

definition bracket_mismatch :: "pystr \<Rightarrow> bool" where
  "bracket_mismatch n = ((91 \<in> set n \<and> 93 \<notin> set n) \<or> (93 \<in> set n \<and> 91 \<notin> set n))"

definition urlsplit ::
  "pylib \<Rightarrow> pystr \<Rightarrow> pystr \<Rightarrow> error + (pystr \<times> pystr \<times> pystr \<times> pystr \<times> pystr)" where
  "urlsplit lib url0 scheme0 =
     (let url1 = remove_unsafe (lstrip_c0 url0);
          scheme1 = remove_unsafe (strip_c0 scheme0);
          (scheme, url2) = split_scheme url1 scheme1;
          (netloc, url3) = (if take 2 url2 = lit ''//'' then splitnetloc url2 else ([], url2))
      in if bracket_mismatch netloc \<or> (netloc \<noteq> [] \<and> netloc_rejected lib netloc)
         then Inl ValueError
         else
           (let (url4, fragment) = (if 35 \<in> set url3 then split1 35 url3 else (url3, []));
                (url5, query) = (if 63 \<in> set url4 then split1 63 url4 else (url4, []))
            in Inr (scheme, netloc, url5, query, fragment)))"

text \<open>
  \<^verbatim>\<open>_splitparams\<close>, called on a path that contains \<^verbatim>\<open>;\<close>: the parameters start at the
  first \<^verbatim>\<open>;\<close> of the last path segment.
\<close>

definition splitparams :: "pystr \<Rightarrow> pystr \<times> pystr" where
  "splitparams url =
     (let k = (if 47 \<in> set url
               then length url - 1 - length (takeWhile (\<lambda>x. x \<noteq> 47) (rev url))
               else 0)
      in if 59 \<notin> set (drop k url) then (url, [])
         else (let i = k + length (takeWhile (\<lambda>x. x \<noteq> 59) (drop k url))
               in (take i url, drop (i + 1) url)))"

type_synonym parsed = "pystr \<times> pystr \<times> pystr \<times> pystr \<times> pystr \<times> pystr"

definition urlparse :: "pylib \<Rightarrow> pystr \<Rightarrow> pystr \<Rightarrow> error + parsed" where
  "urlparse lib url scheme0 =
     (case urlsplit lib url scheme0 of
        Inl e \<Rightarrow> Inl e
      | Inr (scheme, netloc, u, query, fragment) \<Rightarrow>
          (let (u', params) =
                 (if scheme \<in> set (uses_params lib) \<and> 59 \<in> set u then splitparams u
                  else (u, []))
           in Inr (scheme, netloc, u', params, query, fragment)))"

text \<open>
  \<^verbatim>\<open>urlunsplit\<close>: a netloc puts \<^verbatim>\<open>//\<close> and the netloc before the path, which then starts
  with a slash; this is the same in every release. Without a netloc the release decides
  (\<open>unsplit_no_netloc\<close>). Scheme, query and fragment are added around the outcome.
\<close>

definition urlunsplit :: "pylib \<Rightarrow> pystr \<times> pystr \<times> pystr \<times> pystr \<times> pystr \<Rightarrow> pystr" where
  "urlunsplit lib c =
     (case c of (scheme, netloc, url, query, fragment) \<Rightarrow>
        (let url1 =
               (if netloc \<noteq> []
                then lit ''//'' @ netloc @ (if url \<noteq> [] \<and> take 1 url \<noteq> lit ''/''
                                              then lit ''/'' @ url else url)
                else unsplit_no_netloc lib scheme url);
             url2 = (if scheme \<noteq> [] then scheme @ lit '':'' @ url1 else url1);
             url3 = (if query \<noteq> [] then url2 @ lit ''?'' @ query else url2)
         in if fragment \<noteq> [] then url3 @ lit ''#'' @ fragment else url3))"

definition urlunparse :: "pylib \<Rightarrow> parsed \<Rightarrow> pystr" where
  "urlunparse lib c =
     (case c of (scheme, netloc, url, params, query, fragment) \<Rightarrow>
        urlunsplit lib
          (scheme, netloc, (if params \<noteq> [] then url @ lit '';'' @ params else url),
           query, fragment))"

section \<open>\<^verbatim>\<open>parse_url\<close>\<close>

definition prepend_scheme_if_needed :: "pylib \<Rightarrow> pystr \<Rightarrow> pystr \<Rightarrow> error + pystr" where
  "prepend_scheme_if_needed lib url new_scheme =
     (case urlparse lib url new_scheme of
        Inl e \<Rightarrow> Inl e
      | Inr (scheme, netloc, path, params, query, fragment) \<Rightarrow>
          (let (netloc', path') = (if netloc = [] then (path, netloc) else (netloc, path))
           in Inr (urlunparse lib (scheme, netloc', path', params, query, fragment))))"

text \<open>\<^verbatim>\<open>s.rsplit(c, 1)[-1]\<close>: what follows the last \<open>c\<close>, all of \<open>s\<close> without one.\<close>

definition rsplit_last :: "nat \<Rightarrow> pystr \<Rightarrow> pystr" where
  "rsplit_last c s = rev (takeWhile (\<lambda>x. x \<noteq> c) (rev s))"

definition urldefragauth :: "pylib \<Rightarrow> pystr \<Rightarrow> error + pystr" where
  "urldefragauth lib url =
     (case urlparse lib url [] of
        Inl e \<Rightarrow> Inl e
      | Inr (scheme, netloc, path, params, query, fragment) \<Rightarrow>
          (let (netloc', path') = (if netloc = [] then (path, netloc) else (netloc, path))
           in Inr (urlunparse lib (scheme, rsplit_last 64 netloc', path', params, query, []))))"

text \<open>
  Modelled from the spec: \<^verbatim>\<open>allowed_schemes\<close> of the module \<^verbatim>\<open>_config\<close>, which is not among
  the source files. The spec gives the set as http and https, and so does the message
  of the exception that \<^verbatim>\<open>parse_url\<close> raises.
\<close>

definition allowed_schemes :: "pystr list" where
  "allowed_schemes = [lit ''http'', lit ''https'']"

definition parse_url :: "pylib \<Rightarrow> pyobj \<Rightarrow> error + pystr" where
  "parse_url lib url =
     (case url of
        Str u \<Rightarrow>
          if u = [] then Inl InvalidURL
          else
            (case prepend_scheme_if_needed lib u (lit ''http'') of
               Inl e \<Rightarrow> Inl e
             | Inr u1 \<Rightarrow>
                 (case urldefragauth lib u1 of
                    Inl e \<Rightarrow> Inl e
                  | Inr u2 \<Rightarrow>
                      (case urlparse lib u2 [] of
                         Inl e \<Rightarrow> Inl e
                       | Inr (scheme, netloc, path, params, query, fragment) \<Rightarrow>
                           if scheme \<notin> set allowed_schemes then Inl InvalidScheme
                           else
                             (case idna_encode lib netloc of
                                None \<Rightarrow> Inl UnicodeError
                              | Some n \<Rightarrow>
                                  Inr (urlunparse lib
                                         (scheme, n, path, params, query, fragment))))))
      | _ \<Rightarrow> Inl InvalidURL)"

section \<open>Compiled rules and options\<close>

text \<open>
  A compiled \<^verbatim>\<open>re.Pattern\<close> is used in two ways only: \<^verbatim>\<open>p.match(s)\<close>, tested for a
  match at the start of \<open>s\<close>, and \<^verbatim>\<open>p.sub(repl, s)\<close>. The patterns come from rule files
  that are not part of the sources, so a pattern is modelled by these two observations.
  \<open>rsub\<close> is total: the rules are taken to be well-formed, a template naming only
  groups that its pattern has.
\<close>

record regex =
  rmatch :: "pystr \<Rightarrow> bool"
  rsub :: "pystr \<Rightarrow> pystr \<Rightarrow> pystr"

text \<open>One entry of \<^verbatim>\<open>compiled_data\<close>, as \<^verbatim>\<open>compile_patterns\<close> builds it.\<close>

record provider =
  pattern :: regex
  complete :: bool
  redirection :: bool
  exceptions :: "regex list"
  redirections :: "regex list"
  rules :: "regex list"
  referrals :: "regex list"
  raws :: "regex list"

text \<open>
  The module's globals: \<^verbatim>\<open>patterns\<close> and \<^verbatim>\<open>replacements\<close> as compiled at import time, and
  \<^verbatim>\<open>local_domains\<close> of \<^verbatim>\<open>_config\<close>.
\<close>

record config =
  patterns :: "provider list"
  replacements :: "(regex \<times> pystr) list"
  local_domains :: "pystr list"

text \<open>The keyword arguments of \<^verbatim>\<open>parse_rules\<close>; every default is \<^verbatim>\<open>False\<close>.\<close>

record options =
  allow_referral :: bool
  ignore_rules :: bool
  ignore_exceptions :: bool
  ignore_raw :: bool
  ignore_redirections :: bool
  skip_blocked :: bool
  skip_local :: bool

definition default_options :: options where
  "default_options =
     \<lparr> allow_referral = False, ignore_rules = False, ignore_exceptions = False,
       ignore_raw = False, ignore_redirections = False, skip_blocked = False,
       skip_local = False \<rparr>"

text \<open>The template \<^verbatim>\<open>r"\g<1>"\<close>.\<close>

definition group1 :: pystr where
  "group1 = 92 # lit ''g<1>''"

section \<open>\<^verbatim>\<open>is_private\<close> and coroutines\<close>

definition is_private :: "pylib \<Rightarrow> config \<Rightarrow> pystr \<Rightarrow> error + bool" where
  "is_private lib cfg url =
     (case urlparse lib url [] of
        Inl e \<Rightarrow> Inl e
      | Inr (scheme, netloc, path, params, query, fragment) \<Rightarrow>
          (case ip_address_is_private lib netloc of
             None \<Rightarrow> Inr (netloc \<in> set (local_domains cfg))
           | Some b \<Rightarrow> Inr b))"

text \<open>
  Every function of the module is an \<^verbatim>\<open>async def\<close>. Calling one runs nothing: the call
  returns a coroutine object, and \<^verbatim>\<open>await\<close> runs the body and gives its result. The
  model writes an awaited call as the function applied to its arguments, and a call
  that is not awaited as a \<open>Coroutine\<close> holding what the body would give if it were
  run. A coroutine object defines neither \<^verbatim>\<open>__bool__\<close> nor \<^verbatim>\<open>__len__\<close>, so its truth
  value is \<^verbatim>\<open>True\<close>.
\<close>

datatype 'a coroutine = Coroutine 'a

fun truth_value :: "'a coroutine \<Rightarrow> bool" where
  "truth_value (Coroutine r) = True"

section \<open>\<^verbatim>\<open>parse_rules\<close>\<close>

text \<open>
  The loop over \<^verbatim>\<open>pattern["exceptions"]\<close>, which sets \<^verbatim>\<open>skip_provider\<close> and breaks at
  the first exception that matches.
\<close>

fun exceptions_loop :: "regex list \<Rightarrow> pystr \<Rightarrow> bool" where
  "exceptions_loop [] url = False"
| "exceptions_loop (exception # rest) url =
     (if rmatch exception url then True else exceptions_loop rest url)"

text \<open>\<^verbatim>\<open>for r in rs: url = r.sub(repl, url)\<close>.\<close>

fun sub_loop :: "regex list \<Rightarrow> pystr \<Rightarrow> pystr \<Rightarrow> pystr" where
  "sub_loop [] repl url = url"
| "sub_loop (r # rs) repl url = sub_loop rs repl (rsub r repl url)"

text \<open>
  The redirections of one provider: the substitutions, then one \<^verbatim>\<open>unquote\<close> and one
  \<^verbatim>\<open>requote_uri\<close> if the string is no longer \<^verbatim>\<open>original_url\<close>, the URL at the start of
  this pass of the loop.
\<close>

definition redirections_step :: "pylib \<Rightarrow> options \<Rightarrow> provider \<Rightarrow> pystr \<Rightarrow> error + pystr" where
  "redirections_step lib opts p original_url =
     (if \<not> ignore_redirections opts then
        (let url = sub_loop (redirections p) group1 original_url
         in if url \<noteq> original_url then requote_uri lib (unquote url) else Inr url)
      else Inr original_url)"

text \<open>The rules, referrals and raws of one provider, each behind its option.\<close>

definition fields_step :: "options \<Rightarrow> provider \<Rightarrow> pystr \<Rightarrow> pystr" where
  "fields_step opts p url0 =
     (let url1 = (if \<not> ignore_rules opts then sub_loop (rules p) group1 url0 else url0);
          url2 = (if \<not> allow_referral opts then sub_loop (referrals p) group1 url1 else url1)
      in if \<not> ignore_raw opts then sub_loop (raws p) [] url2 else url2)"

text \<open>One pass of the loop over \<^verbatim>\<open>patterns\<close>: the URL that the next pass receives.\<close>

definition provider_step :: "pylib \<Rightarrow> options \<Rightarrow> provider \<Rightarrow> pystr \<Rightarrow> error + pystr" where
  "provider_step lib opts p url =
     (if skip_blocked opts \<and> complete p then Inr url
      else if rmatch (pattern p) url then
        (let skip_provider =
               (if \<not> ignore_exceptions opts then exceptions_loop (exceptions p) url
                else False)
         in if skip_provider then Inr url
            else (case redirections_step lib opts p url of
                    Inl e \<Rightarrow> Inl e
                  | Inr url' \<Rightarrow> Inr (fields_step opts p url')))
      else Inr url)"

fun providers_loop :: "pylib \<Rightarrow> options \<Rightarrow> provider list \<Rightarrow> pystr \<Rightarrow> error + pystr" where
  "providers_loop lib opts [] url = Inr url"
| "providers_loop lib opts (p # ps) url =
     (case provider_step lib opts p url of
        Inl e \<Rightarrow> Inl e
      | Inr url' \<Rightarrow> providers_loop lib opts ps url')"

text \<open>\<^verbatim>\<open>for pattern, replacement in replacements: url = pattern.sub(replacement, url)\<close>.\<close>

fun replacements_loop :: "(regex \<times> pystr) list \<Rightarrow> pystr \<Rightarrow> pystr" where
  "replacements_loop [] url = url"
| "replacements_loop ((pat, replacement) # rest) url =
     replacements_loop rest (rsub pat replacement url)"

text \<open>
  \<^verbatim>\<open>parse_rules\<close>. Its first statement calls \<^verbatim>\<open>is_private(url)\<close> without \<^verbatim>\<open>await\<close>, so
  the condition tests the coroutine object and not what \<^verbatim>\<open>is_private\<close> would return.
\<close>

definition parse_rules :: "pylib \<Rightarrow> config \<Rightarrow> options \<Rightarrow> pystr \<Rightarrow> error + pystr" where
  "parse_rules lib cfg opts url =
     (if skip_local opts \<and> truth_value (Coroutine (is_private lib cfg url)) then Inr url
      else
        (case providers_loop lib opts (patterns cfg) url of
           Inl e \<Rightarrow> Inl e
         | Inr url' \<Rightarrow> Inr (replacements_loop (replacements cfg) url')))"

section \<open>\<^verbatim>\<open>clear_url\<close>\<close>

definition clear_url :: "pylib \<Rightarrow> config \<Rightarrow> options \<Rightarrow> pyobj \<Rightarrow> error + pystr" where
  "clear_url lib cfg opts url =
     (case parse_url lib url of
        Inl e \<Rightarrow> Inl e
      | Inr formated_url \<Rightarrow> parse_rules lib cfg opts formated_url)"

section \<open>The redirect branch of \<^verbatim>\<open>unshort_url\<close>\<close>

text \<open>\<^verbatim>\<open>os.path.dirname\<close> and \<^verbatim>\<open>os.path.join\<close> (with two arguments) of \<^verbatim>\<open>posixpath\<close>.\<close>

definition dirname :: "pystr \<Rightarrow> pystr" where
  "dirname p =
     (let head = rev (dropWhile (\<lambda>c. c \<noteq> 47) (rev p))
      in if head \<noteq> [] \<and> \<not> list_all (\<lambda>c. c = 47) head
         then rev (dropWhile (\<lambda>c. c = 47) (rev head))
         else head)"

definition path_join :: "pystr \<Rightarrow> pystr \<Rightarrow> pystr" where
  "path_join a b =
     (if startswith b (lit ''/'') then b
      else if a = [] \<or> last a = 47 then a @ b
      else a @ lit ''/'' @ b)"

text \<open>
  What one pass of the loop of \<^verbatim>\<open>unshort_url\<close> hands to \<^verbatim>\<open>parse_rules\<close> when the status of
  the response is one of \<^verbatim>\<open>redirect_codes\<close>: \<open>location\<close> is the \<^verbatim>\<open>Location\<close> header, and
  \<open>path\<close> the path that was requested (with the query, if there was one). The three
  branches are tried in the order of the source.
\<close>

definition redirect_target :: "pylib \<Rightarrow> pystr \<Rightarrow> pystr \<Rightarrow> pystr \<Rightarrow> pystr \<Rightarrow> pystr" where
  "redirect_target lib scheme netloc path location =
     (if startswith location (lit ''http://'') \<or> startswith location (lit ''https://'')
      then location
      else if startswith location (lit ''/'')
      then urlunparse lib (scheme, netloc, location, [], [], [])
      else urlunparse lib (scheme, netloc, path_join (dirname path) location, [], [], []))"

text \<open>The new \<^verbatim>\<open>parsed_url\<close> after a redirect response.\<close>

definition follow_redirect ::
  "pylib \<Rightarrow> config \<Rightarrow> options \<Rightarrow> parsed \<Rightarrow> pystr \<Rightarrow> error + parsed" where
  "follow_redirect lib cfg opts parsed_url location =
     (case parsed_url of (scheme, netloc, path0, params, query, fragment) \<Rightarrow>
        (let path = (if query \<noteq> [] then path0 @ lit ''?'' @ query else path0)
         in case parse_rules lib cfg opts (redirect_target lib scheme netloc path location) of
              Inl e \<Rightarrow> Inl e
            | Inr cleaned_url \<Rightarrow> urlparse lib cleaned_url []))"

section \<open>Example rules\<close>

text \<open>
  The rule files are not among the sources, so the examples below run on a small
  configuration of their own. \<open>re_prefix_group pre\<close> stands for the compiled pattern
  \<^verbatim>\<open>^pre(.*)\<close> with \<open>pre\<close> escaped (also with the \<^verbatim>\<open>.*\<close> that \<^verbatim>\<open>compile_patterns\<close> appends to
  a redirection): it matches a string that starts with \<open>pre\<close>, the group is the rest of
  the line, and \<^verbatim>\<open>sub\<close> replaces the one match by the template, which is \<^verbatim>\<open>\g<1>\<close> or
  a text without backslash.
\<close>

definition re_prefix_group :: "pystr \<Rightarrow> regex" where
  "re_prefix_group pre =
     \<lparr> rmatch = (\<lambda>s. startswith s pre),
       rsub = (\<lambda>repl s.
         if startswith s pre then
           (let rest = drop (length pre) s
            in (if repl = group1 then takeWhile (\<lambda>c. c \<noteq> 10) rest else repl)
                 @ dropWhile (\<lambda>c. c \<noteq> 10) rest)
         else s) \<rparr>"

text \<open>
  \<open>re_run c\<close> stands for the compiled pattern \<^verbatim>\<open>c+\<close>, for a character \<open>c\<close> that is not
  special: \<^verbatim>\<open>sub\<close> replaces every maximal run of \<open>c\<close> by the template, a text without
  backslash.
\<close>

fun sub_runs :: "nat \<Rightarrow> pystr \<Rightarrow> bool \<Rightarrow> pystr \<Rightarrow> pystr" where
  "sub_runs c repl inrun [] = []"
| "sub_runs c repl inrun (x # xs) =
     (if x = c then (if inrun then [] else repl) @ sub_runs c repl True xs
      else x # sub_runs c repl False xs)"

definition re_run :: "nat \<Rightarrow> regex" where
  "re_run c =
     \<lparr> rmatch = (\<lambda>s. take 1 s = [c]),
       rsub = (\<lambda>repl s. sub_runs c repl False s) \<rparr>"

text \<open>
  A provider for a redirector at \<^verbatim>\<open>r.example\<close> that carries its target in \<^verbatim>\<open>u\<close>, with an
  exception for the targets at \<^verbatim>\<open>keep.example\<close>; one global replacement, \<^verbatim>\<open>&+\<close> by \<^verbatim>\<open>&\<close>.
\<close>

definition demo_provider :: provider where
  "demo_provider =
     \<lparr> pattern = re_prefix_group (lit ''http://r.example/''),
       complete = False,
       redirection = False,
       exceptions = [re_prefix_group (lit ''http://r.example/?u=http://keep.example/'')],
       redirections = [re_prefix_group (lit ''http://r.example/?u='')],
       rules = [],
       referrals = [],
       raws = [] \<rparr>"

definition demo_cfg :: config where
  "demo_cfg =
     \<lparr> patterns = [demo_provider],
       replacements = [(re_run 38, lit ''&'')],
       local_domains = [lit ''localhost''] \<rparr>"

text \<open>
  \<^verbatim>\<open>urlunsplit\<close> without a netloc as CPython 3.11.10 has it, for a table \<^verbatim>\<open>uses_netloc\<close>:
  a scheme of the table, or a path that starts with two slashes, puts \<^verbatim>\<open>//\<close> before the
  path, which then starts with a slash.
\<close>

definition demo_unsplit :: "pystr list \<Rightarrow> pystr \<Rightarrow> pystr \<Rightarrow> pystr" where
  "demo_unsplit uses_netloc scheme url =
     (if (scheme \<noteq> [] \<and> scheme \<in> set uses_netloc) \<or> take 2 url = lit ''//''
      then lit ''//'' @ (if url \<noteq> [] \<and> take 1 url \<noteq> lit ''/'' then lit ''/'' @ url else url)
      else url)"

text \<open>
  The library parameters for the examples, whose strings are ASCII: the scheme tables
  hold what the examples need, no netloc is rejected, \<^verbatim>\<open>127.0.0.1\<close> is the one address
  and it is private, and the \<^verbatim>\<open>idna\<close> codec leaves an ASCII host name as it is.
\<close>

definition demo_lib :: pylib where
  "demo_lib =
     \<lparr> uni_alnum = (\<lambda>c. False),
       uni_decimal = (\<lambda>c. None),
       uses_params = [[], lit ''ftp'', lit ''http'', lit ''https''],
       unsplit_no_netloc = demo_unsplit [[], lit ''ftp'', lit ''http'', lit ''https''],
       netloc_rejected = (\<lambda>n. False),
       ip_address_is_private = (\<lambda>n. if n = lit ''127.0.0.1'' then Some True else None),
       idna_encode = Some \<rparr>"

text \<open>Every option at the value that skips something, \<^verbatim>\<open>skip_local\<close> apart.\<close>

definition skipping_options :: options where
  "skipping_options =
     \<lparr> allow_referral = True, ignore_rules = True, ignore_exceptions = True,
       ignore_raw = True, ignore_redirections = True, skip_blocked = True,
       skip_local = False \<rparr>"

section \<open>Evaluation\<close>

lemmas char_defs =
  is_alpha_def is_upper_def is_lower_def is_digit_def hexval_def hexdigit_def
  UNRESERVED_SET_def scalar_value_def is_cont_def scheme_chars_def lower_cp_def

lemmas quote_defs =
  requote_uri_def unquote_unreserved_def unquote_part_def isalnum_def isalnum_cp_def
  int16_def int_digit_def chr_def quote_def utf8_encode_cp_def quoter_def
  safe_without_percent_def safe_with_percent_def
  unquote_def unquote_run_def unquote_to_bytes_def unquote_item_def

lemmas url_defs =
  urlparse_def urlsplit_def split_scheme_def splitnetloc_def splitparams_def split1_def
  find_char_def bracket_mismatch_def lstrip_c0_def strip_c0_def remove_unsafe_def
  urlunparse_def urlunsplit_def prepend_scheme_if_needed_def urldefragauth_def
  rsplit_last_def allowed_schemes_def parse_url_def

lemmas rules_defs =
  parse_rules_def provider_step_def redirections_step_def fields_step_def group1_def
  startswith_def

lemmas demo_defs =
  demo_lib_def demo_unsplit_def demo_cfg_def demo_provider_def re_run_def re_prefix_group_def
  default_options_def skipping_options_def

section \<open>Invalid input\<close>

text \<open>
  C7. \<^verbatim>\<open>clear_url\<close> raises \<^verbatim>\<open>InvalidURL\<close> for the empty string and for \<^verbatim>\<open>None\<close>: the result
  is the exception, whatever the rules and the options are, so no rule has been
  applied.
\<close>

theorem clear_url_empty_or_None:
  "clear_url lib cfg opts (Str []) = Inl InvalidURL
   \<and> clear_url lib cfg opts NoneObj = Inl InvalidURL"
  by (simp add: clear_url_def parse_url_def)

section \<open>Exceptions of a provider\<close>

lemma exceptions_loop_iff: "exceptions_loop es url = (\<exists>e \<in> set es. rmatch e url)"
  by (induction es) auto

text \<open>
  C3. A provider whose \<^verbatim>\<open>urlPattern\<close> matches the current URL, with \<^verbatim>\<open>ignore_exceptions\<close>
  false and an exception that matches the URL, applies none of its substitutions: its
  pass of the loop hands the URL on as it was, and the loop goes on with the next
  provider from the same URL.
\<close>

theorem exception_skips_provider:
  assumes "rmatch (pattern p) url"
    and "\<not> ignore_exceptions opts"
    and "\<exists>e \<in> set (exceptions p). rmatch e url"
  shows "provider_step lib opts p url = Inr url
       \<and> providers_loop lib opts (p # ps) url = providers_loop lib opts ps url"
  using assms by (simp add: provider_step_def exceptions_loop_iff)

text \<open>
  The theorem at the example provider and a redirector URL with a target at
  \<^verbatim>\<open>keep.example\<close>: the pattern and the exception match, and the URL is handed on;
  with \<^verbatim>\<open>ignore_exceptions\<close> the same provider unwraps it.
\<close>

theorem exception_skips_provider_witness:
  "rmatch (pattern demo_provider) (lit ''http://r.example/?u=http://keep.example/a'')
   \<and> \<not> ignore_exceptions default_options
   \<and> list_ex (\<lambda>e. rmatch e (lit ''http://r.example/?u=http://keep.example/a''))
        (exceptions demo_provider)
   \<and> provider_step demo_lib default_options demo_provider
        (lit ''http://r.example/?u=http://keep.example/a'')
      = Inr (lit ''http://r.example/?u=http://keep.example/a'')
   \<and> providers_loop demo_lib default_options [demo_provider]
        (lit ''http://r.example/?u=http://keep.example/a'')
      = Inr (lit ''http://r.example/?u=http://keep.example/a'')
   \<and> provider_step demo_lib (default_options\<lparr>ignore_exceptions := True\<rparr>) demo_provider
        (lit ''http://r.example/?u=http://keep.example/a'')
      = Inr (lit ''http://keep.example/a'')"
  using exception_skips_provider
    [of demo_provider "lit ''http://r.example/?u=http://keep.example/a''"
        default_options demo_lib "[]"]
  by (simp add: demo_defs rules_defs quote_defs char_defs)

section \<open>Global replacements\<close>

lemma replacements_loop_foldl:
  "replacements_loop reps url =
     foldl (\<lambda>u (pat, replacement). rsub pat replacement u) url reps"
  by (induction reps url rule: replacements_loop.induct) auto

lemma providers_loop_no_match:
  "list_all (\<lambda>p. \<not> rmatch (pattern p) url) ps \<Longrightarrow> providers_loop lib opts ps url = Inr url"
  by (induction ps) (auto simp: provider_step_def)

text \<open>
  C5, as the code has it. With \<^verbatim>\<open>skip_local\<close> false, for every input URL the result is
  the global replacements applied one after the other, in the order of the list, to
  the string that the loop over the providers produced, not to the input; and they
  are applied even when no provider's \<^verbatim>\<open>urlPattern\<close> matches the URL.
\<close>

theorem replacements_after_providers:
  assumes "\<not> skip_local opts"
  shows "parse_rules lib cfg opts url =
           (case providers_loop lib opts (patterns cfg) url of
              Inl e \<Rightarrow> Inl e
            | Inr u \<Rightarrow>
                Inr (foldl (\<lambda>u (pat, replacement). rsub pat replacement u) u
                       (replacements cfg)))
       \<and> (list_all (\<lambda>p. \<not> rmatch (pattern p) url) (patterns cfg) \<longrightarrow>
            parse_rules lib cfg opts url =
              Inr (foldl (\<lambda>u (pat, replacement). rsub pat replacement u) url
                     (replacements cfg)))"
  using assms
  by (simp add: parse_rules_def replacements_loop_foldl providers_loop_no_match
      split: sum.splits)

text \<open>
  The theorem at the example rules: the provider unwraps the target, and the
  replacement then squeezes the \<^verbatim>\<open>&&\<close> of the target, which the input has in another
  place.
\<close>

theorem replacements_after_providers_witness:
  "\<not> skip_local default_options
   \<and> providers_loop demo_lib default_options (patterns demo_cfg)
        (lit ''http://r.example/?u=http://a.example/?x=1&&y=2'')
      = Inr (lit ''http://a.example/?x=1&&y=2'')
   \<and> parse_rules demo_lib demo_cfg default_options
        (lit ''http://r.example/?u=http://a.example/?x=1&&y=2'')
      = Inr (lit ''http://a.example/?x=1&y=2'')"
  using replacements_after_providers
    [of default_options demo_lib demo_cfg
        "lit ''http://r.example/?u=http://a.example/?x=1&&y=2''"]
  by (simp add: demo_defs rules_defs quote_defs char_defs)

text \<open>
  C5 as it is stated fails with \<^verbatim>\<open>skip_local\<close> on a URL at a private address:
  \<^verbatim>\<open>parse_rules\<close> returns the input at its first statement, and the replacement, which
  would squeeze the \<^verbatim>\<open>&&\<close> that the providers leave in place, is not applied.
\<close>

theorem skip_local_private_counterexample:
  "is_private demo_lib demo_cfg (lit ''http://127.0.0.1/?x=1&&y=2'') = Inr True
   \<and> parse_rules demo_lib demo_cfg (default_options\<lparr>skip_local := True\<rparr>)
        (lit ''http://127.0.0.1/?x=1&&y=2'')
      = Inr (lit ''http://127.0.0.1/?x=1&&y=2'')
   \<and> providers_loop demo_lib (default_options\<lparr>skip_local := True\<rparr>) (patterns demo_cfg)
        (lit ''http://127.0.0.1/?x=1&&y=2'')
      = Inr (lit ''http://127.0.0.1/?x=1&&y=2'')
   \<and> foldl (\<lambda>u (pat, replacement). rsub pat replacement u)
        (lit ''http://127.0.0.1/?x=1&&y=2'') (replacements demo_cfg)
      = lit ''http://127.0.0.1/?x=1&y=2''
   \<and> lit ''http://127.0.0.1/?x=1&&y=2'' \<noteq> lit ''http://127.0.0.1/?x=1&y=2''"
  by (simp add: demo_defs rules_defs is_private_def url_defs char_defs)

section \<open>\<^verbatim>\<open>requote_uri\<close>\<close>

lemma utf8_encode_cp_bytes: "utf8_encode_cp c = Inr bs \<Longrightarrow> list_all (\<lambda>b. b < 256) bs"
  by (auto simp: utf8_encode_cp_def scalar_value_def split: if_splits)

lemma utf8_encode_bytes: "utf8_encode s = Inr bs \<Longrightarrow> list_all (\<lambda>b. b < 256) bs"
  by (induction s arbitrary: bs) (auto split: sum.splits dest: utf8_encode_cp_bytes)

lemma utf8_encode_cp_scalar: "scalar_value c \<Longrightarrow> \<exists>bs. utf8_encode_cp c = Inr bs"
  by (auto simp: utf8_encode_cp_def)

lemma utf8_encode_scalar: "list_all scalar_value s \<Longrightarrow> \<exists>bs. utf8_encode s = Inr bs"
proof (induction s)
  case Nil
  then show ?case by simp
next
  case (Cons c cs)
  then obtain bs where "utf8_encode cs = Inr bs" by auto
  moreover from Cons.prems obtain b1 where "utf8_encode_cp c = Inr b1"
    using utf8_encode_cp_scalar by auto
  ultimately show ?case by simp
qed

lemma quote_scalar: "list_all scalar_value s \<Longrightarrow> \<exists>r. quote s safe = Inr r"
  using utf8_encode_scalar [of s] by (auto simp: quote_def)

lemma unquote_part_error: "unquote_part lib p = Inl e \<Longrightarrow> e = ValueError"
  by (auto simp: unquote_part_def Let_def int16_def chr_def
      split: if_splits sum.splits list.splits option.splits)

lemma unquote_parts_error: "unquote_parts lib ps = Inl e \<Longrightarrow> e = ValueError"
  by (induction ps) (auto split: sum.splits dest: unquote_part_error)

lemma unquote_unreserved_error: "unquote_unreserved lib uri = Inl e \<Longrightarrow> e = ValueError"
  by (auto simp: unquote_unreserved_def split: list.splits sum.splits
      dest: unquote_parts_error)

lemma UNRESERVED_scalar: "UNRESERVED_SET c \<Longrightarrow> scalar_value c"
  by (auto simp: char_defs)

lemma unquote_part_cases:
  "unquote_part lib p = Inr p' \<Longrightarrow>
     (\<exists>c. UNRESERVED_SET c \<and> p' = c # drop 2 p) \<or> p' = 37 # p"
  by (auto simp: unquote_part_def Let_def split: if_splits sum.splits)

lemma unquote_part_scalar:
  assumes "unquote_part lib p = Inr p'" and "list_all scalar_value p"
  shows "list_all scalar_value p'"
proof -
  have "scalar_value 37" by (simp add: scalar_value_def)
  moreover from assms(2) have "list_all scalar_value (drop 2 p)"
    by (auto simp: list_all_iff dest: in_set_dropD)
  ultimately show ?thesis
    using assms(2) unquote_part_cases [OF assms(1)] by (auto simp: UNRESERVED_scalar)
qed

lemma unquote_parts_scalar:
  "unquote_parts lib ps = Inr ps' \<Longrightarrow> list_all (list_all scalar_value) ps
     \<Longrightarrow> list_all (list_all scalar_value) ps'"
  by (induction ps arbitrary: ps') (auto split: sum.splits dest: unquote_part_scalar)

lemma split_on_nonempty: "split_on c s \<noteq> []"
  by (induction s) (auto split: list.splits)

lemma split_on_all: "list_all P s \<Longrightarrow> list_all (list_all P) (split_on c s)"
  by (induction s) (auto split: list.splits)

lemma unquote_unreserved_scalar:
  assumes "unquote_unreserved lib uri = Inr u" and "list_all scalar_value uri"
  shows "list_all scalar_value u"
proof -
  from assms(2) have parts: "list_all (list_all scalar_value) (split_on 37 uri)"
    by (rule split_on_all)
  from assms(1) obtain p ps ps' where
    sp: "split_on 37 uri = p # ps" and up: "unquote_parts lib ps = Inr ps'"
    and u: "u = concat (p # ps')"
    using split_on_nonempty [of 37 uri]
    by (auto simp: unquote_unreserved_def split: list.splits sum.splits)
  from parts sp have "list_all scalar_value p" "list_all (list_all scalar_value) ps" by auto
  with up have "list_all (list_all scalar_value) (p # ps')"
    by (auto dest: unquote_parts_scalar)
  then show ?thesis unfolding u by (auto simp: list_all_iff)
qed

text \<open>
  C10, as the code has it. \<^verbatim>\<open>requote_uri\<close> returns a string for every string of Unicode
  scalar values, that is, every string without a lone surrogate; and whenever the
  unquote pass raises, it raises \<^verbatim>\<open>ValueError\<close>, which is caught, and the result is the
  input quoted with the percent sign not among the safe characters.
\<close>

theorem requote_uri_total_on_scalar_values:
  assumes "list_all scalar_value uri"
  shows "(\<exists>r. requote_uri lib uri = Inr r)
       \<and> (\<forall>e. unquote_unreserved lib uri = Inl e \<longrightarrow>
             e = ValueError \<and> requote_uri lib uri = quote uri safe_without_percent)"
proof (cases "unquote_unreserved lib uri")
  case (Inl e)
  then have e: "e = ValueError" by (rule unquote_unreserved_error)
  from assms obtain r where "quote uri safe_without_percent = Inr r"
    using quote_scalar by blast
  with Inl e show ?thesis by (simp add: requote_uri_def)
next
  case (Inr u)
  with assms have "list_all scalar_value u" by (auto dest: unquote_unreserved_scalar)
  then obtain r where "quote u safe_with_percent = Inr r" using quote_scalar by blast
  with Inr show ?thesis by (simp add: requote_uri_def)
qed

text \<open>
  The theorem at a string with a percent sign that no two hexadecimal digits follow:
  the unquote pass raises, and the percent sign is quoted.
\<close>

theorem requote_uri_total_on_scalar_values_witness:
  "list_all scalar_value (lit ''http://a.example/%zz'')
   \<and> unquote_unreserved demo_lib (lit ''http://a.example/%zz'') = Inl ValueError
   \<and> requote_uri demo_lib (lit ''http://a.example/%zz'') = Inr (lit ''http://a.example/%25zz'')"
  using requote_uri_total_on_scalar_values [of "lit ''http://a.example/%zz''" demo_lib]
  by (simp add: demo_lib_def quote_defs char_defs)

text \<open>
  C10 as it is stated fails on a string that holds a lone surrogate: both calls of
  \<^verbatim>\<open>quote\<close> raise \<^verbatim>\<open>UnicodeEncodeError\<close>, the first inside the \<^verbatim>\<open>try\<close>, the second in the
  handler, from where it leaves \<^verbatim>\<open>requote_uri\<close>.
\<close>

theorem requote_uri_surrogate_counterexample:
  "requote_uri demo_lib (lit ''http://a.example/'' @ [0xD800]) = Inl UnicodeEncodeError"
  by (simp add: demo_lib_def quote_defs char_defs)

text \<open>The library parameters play no part in it.\<close>

lemma requote_uri_surrogate:
  "requote_uri lib (lit ''http://a.example/'' @ [0xD800]) = Inl UnicodeEncodeError"
  by (simp add: quote_defs char_defs)

section \<open>Redirections of a provider\<close>

lemma hexdigit_unreserved: "n < 16 \<Longrightarrow> UNRESERVED_SET (hexdigit n)"
  by (auto simp: char_defs)

lemma uri_char_hexdigit: "n < 16 \<Longrightarrow> uri_char (hexdigit n)"
  by (simp add: uri_char_def hexdigit_unreserved)

lemma uri_char_percent: "uri_char 37"
  by (simp add: uri_char_def safe_with_percent_def)

lemma quoter_chars:
  assumes "b < 256" and "set safe \<subseteq> set safe_with_percent" and "x \<in> set (quoter safe b)"
  shows "uri_char x"
proof (cases "UNRESERVED_SET b \<or> b \<in> set safe")
  case True
  with assms(3) have "x = b" by (simp add: quoter_def)
  with True assms(2) show ?thesis by (auto simp: uri_char_def)
next
  case False
  have "b div 16 < 16" "b mod 16 < 16" using assms(1) by auto
  then have "uri_char (hexdigit (b div 16))" "uri_char (hexdigit (b mod 16))"
    by (simp_all add: uri_char_hexdigit)
  moreover from False assms(3)
  have "x = 37 \<or> x = hexdigit (b div 16) \<or> x = hexdigit (b mod 16)"
    by (simp add: quoter_def)
  ultimately show ?thesis using uri_char_percent by auto
qed

lemma quote_chars:
  assumes "quote s safe = Inr r" and "set safe \<subseteq> set safe_with_percent"
  shows "list_all uri_char r"
proof (cases "s = []")
  case True
  with assms(1) show ?thesis by (simp add: quote_def)
next
  case False
  with assms(1) obtain bs where bs: "utf8_encode s = Inr bs"
    and r: "r = concat (map (quoter (filter (\<lambda>c. c < 128) safe)) bs)"
    by (auto simp: quote_def split: sum.splits)
  have sub: "set (filter (\<lambda>c. c < 128) safe) \<subseteq> set safe_with_percent"
    using assms(2) by auto
  have "uri_char x"
    if "b \<in> set bs" and "x \<in> set (quoter (filter (\<lambda>c. c < 128) safe) b)" for b x
  proof -
    from utf8_encode_bytes [OF bs] that(1) have "b < 256" by (simp add: list_all_iff)
    then show ?thesis using sub that(2) by (rule quoter_chars)
  qed
  then show ?thesis unfolding r by (auto simp: list_all_iff)
qed

lemma safe_without_subset: "set safe_without_percent \<subseteq> set safe_with_percent"
  by (simp add: safe_without_percent_def safe_with_percent_def)

lemma requote_uri_chars: "requote_uri lib s = Inr r \<Longrightarrow> list_all uri_char r"
  by (auto simp: requote_uri_def split: sum.splits if_splits
      dest: quote_chars [OF _ safe_without_subset] quote_chars [OF _ subset_refl])

subsection \<open>The unquote pass of the source does what its description says\<close>

lemma hd_split_on: "hd (split_on c xs) = takeWhile (\<lambda>x. x \<noteq> c) xs"
  using split_on_nonempty [of c] by (induction xs) (auto split: list.splits)

lemma split_on_Cons_other:
  "x \<noteq> c \<Longrightarrow> split_on c (x # xs) = (x # hd (split_on c xs)) # tl (split_on c xs)"
  using split_on_nonempty [of c xs] by (cases "split_on c xs") auto

lemma unquote_unreserved_alt:
  "unquote_unreserved lib xs =
     (case unquote_parts lib (tl (split_on 37 xs)) of
        Inl e \<Rightarrow> Inl e
      | Inr ps' \<Rightarrow> Inr (hd (split_on 37 xs) @ concat ps'))"
  using split_on_nonempty [of 37 xs]
  by (cases "split_on 37 xs") (auto simp: unquote_unreserved_def split: sum.splits)

lemma unquote_unreserved_Nil: "unquote_unreserved lib [] = Inr []"
  by (simp add: unquote_unreserved_def)

lemma unquote_unreserved_Cons_other:
  "x \<noteq> 37 \<Longrightarrow>
     unquote_unreserved lib (x # xs) = cons_result x (unquote_unreserved lib xs)"
  by (simp add: unquote_unreserved_alt split_on_Cons_other cons_result_def
      del: split_on.simps split: sum.splits)

lemma unquote_unreserved_percent:
  "unquote_unreserved lib (37 # xs) =
     (case unquote_part lib (hd (split_on 37 xs)) of
        Inl e \<Rightarrow> Inl e
      | Inr p' \<Rightarrow>
          (case unquote_parts lib (tl (split_on 37 xs)) of
             Inl e \<Rightarrow> Inl e
           | Inr ps' \<Rightarrow> Inr (p' @ concat ps')))"
  using split_on_nonempty [of 37 xs]
  by (cases "split_on 37 xs") (auto simp: unquote_unreserved_def split: sum.splits)

lemma isalnum_cp_percent: "\<not> isalnum_cp lib 37"
  by (simp add: isalnum_cp_def char_defs)

lemma unquote_unreserved_percent_kept:
  assumes "unquote_part lib (hd (split_on 37 xs)) = Inr (37 # hd (split_on 37 xs))"
  shows "unquote_unreserved lib (37 # xs) = cons_result 37 (unquote_unreserved lib xs)"
  using assms
  by (simp add: unquote_unreserved_percent unquote_unreserved_alt [of lib xs] cons_result_def
      split: sum.splits)

lemma unquote_part_kept:
  "\<not> (length (take 2 p) = 2 \<and> isalnum lib (take 2 p)) \<Longrightarrow> unquote_part lib p = Inr (37 # p)"
  by (auto simp: unquote_part_def Let_def)

lemma unquote_part_pair:
  assumes "isalnum_cp lib a" and "isalnum_cp lib b"
  shows "unquote_part lib (a # b # p) =
           (case escape_char lib a b of
              Some (Inr v) \<Rightarrow> if UNRESERVED_SET v then Inr (v # p) else Inr (37 # a # b # p)
            | Some (Inl e) \<Rightarrow> Inl e
            | None \<Rightarrow> Inr (37 # a # b # p))"
  using assms
  by (auto simp: unquote_part_def escape_char_def isalnum_def split: sum.splits)

lemma escape_char_error: "escape_char lib a b = Some (Inl e) \<Longrightarrow> e = ValueError"
  by (auto simp: escape_char_def int16_def chr_def
      split: if_splits sum.splits option.splits)

text \<open>
  The source after a percent sign, in terms of the two characters that follow it in the
  string (the source looks at the first two characters of a piece between percent
  signs).
\<close>

lemma unquote_unreserved_percent_escape:
  "unquote_unreserved lib (37 # xs) =
     (case xs of
        a # b # rest \<Rightarrow>
          (case escape_char lib a b of
             Some (Inr v) \<Rightarrow>
               if UNRESERVED_SET v then cons_result v (unquote_unreserved lib rest)
               else cons_result 37 (unquote_unreserved lib xs)
           | Some (Inl e) \<Rightarrow> Inl ValueError
           | None \<Rightarrow> cons_result 37 (unquote_unreserved lib xs))
      | _ \<Rightarrow> cons_result 37 (unquote_unreserved lib xs))"
proof (cases "\<exists>a b rest. xs = a # b # rest \<and> isalnum_cp lib a \<and> isalnum_cp lib b")
  case True
  then obtain a b rest where xs: "xs = a # b # rest"
    and al: "isalnum_cp lib a" "isalnum_cp lib b" by blast
  from al have ne: "a \<noteq> 37" "b \<noteq> 37" using isalnum_cp_percent by auto
  have sp: "split_on 37 xs = (a # b # hd (split_on 37 rest)) # tl (split_on 37 rest)"
    unfolding xs using ne by (simp add: split_on_Cons_other del: split_on.simps)
  have step: "unquote_unreserved lib (37 # xs) =
      (case unquote_part lib (a # b # hd (split_on 37 rest)) of
         Inl e \<Rightarrow> Inl e
       | Inr p' \<Rightarrow>
           (case unquote_parts lib (tl (split_on 37 rest)) of
              Inl e \<Rightarrow> Inl e
            | Inr ps' \<Rightarrow> Inr (p' @ concat ps')))"
    by (simp only: unquote_unreserved_percent sp list.sel)
  have whole: "unquote_unreserved lib (a # b # rest)
      = cons_result a (cons_result b (unquote_unreserved lib rest))"
    using ne by (simp add: unquote_unreserved_Cons_other)
  show ?thesis
  proof (cases "escape_char lib a b")
    case None
    with al show ?thesis by (simp add: escape_char_def)
  next
    case (Some r)
    show ?thesis
    proof (cases r)
      case (Inl e)
      with Some have "e = ValueError" by (auto dest: escape_char_error)
      with Some Inl show ?thesis
        unfolding step by (simp add: unquote_part_pair [OF al] xs)
    next
      case (Inr v)
      with Some show ?thesis
        unfolding step
        by (simp add: unquote_part_pair [OF al] xs whole unquote_unreserved_alt [of lib rest]
            cons_result_def split: sum.splits)
    qed
  qed
next
  case False
  let ?p = "hd (split_on 37 xs)"
  have "\<not> (length (take 2 ?p) = 2 \<and> isalnum lib (take 2 ?p))"
  proof
    assume h: "length (take 2 ?p) = 2 \<and> isalnum lib (take 2 ?p)"
    then obtain a b p' where p: "?p = a # b # p'"
      by (cases ?p; cases "tl ?p"; auto)
    then have "takeWhile (\<lambda>x. x \<noteq> 37) xs = a # b # p'" by (simp add: hd_split_on)
    then obtain rest where "xs = a # b # rest"
      by (cases xs; cases "tl xs"; auto split: if_splits)
    moreover from h p have "isalnum_cp lib a" "isalnum_cp lib b" by (auto simp: isalnum_def)
    ultimately show False using False by blast
  qed
  then have kept:
    "unquote_unreserved lib (37 # xs) = cons_result 37 (unquote_unreserved lib xs)"
    by (intro unquote_unreserved_percent_kept unquote_part_kept)
  from False show ?thesis
    by (auto simp: kept escape_char_def split: list.splits)
qed

lemma bad_escape_Cons_other: "x \<noteq> 37 \<Longrightarrow> bad_escape lib (x # xs) = bad_escape lib xs"
  by (cases xs; cases "tl xs"; cases "tl (tl xs)"; auto)

lemma unreserved_decoded_Cons_other:
  "x \<noteq> 37 \<Longrightarrow> unreserved_decoded lib (x # xs) = x # unreserved_decoded lib xs"
  by (cases xs; cases "tl xs"; auto)

lemma unreserved_pass_Cons_other:
  "x \<noteq> 37 \<Longrightarrow> unreserved_pass lib (x # xs) = cons_result x (unreserved_pass lib xs)"
  by (simp add: unreserved_pass_def cons_result_def bad_escape_Cons_other
      unreserved_decoded_Cons_other)

lemma unreserved_pass_percent_escape:
  "unreserved_pass lib (37 # xs) =
     (case xs of
        a # b # rest \<Rightarrow>
          (case escape_char lib a b of
             Some (Inr v) \<Rightarrow>
               if UNRESERVED_SET v then cons_result v (unreserved_pass lib rest)
               else cons_result 37 (unreserved_pass lib xs)
           | Some (Inl e) \<Rightarrow> Inl ValueError
           | None \<Rightarrow> cons_result 37 (unreserved_pass lib xs))
      | _ \<Rightarrow> cons_result 37 (unreserved_pass lib xs))"
proof (cases "\<exists>a b rest. xs = a # b # rest")
  case False
  then show ?thesis
    by (cases xs; cases "tl xs"; auto simp: unreserved_pass_def cons_result_def)
next
  case True
  then obtain a b rest where xs: "xs = a # b # rest" by blast
  show ?thesis
  proof (cases "escape_char lib a b")
    case None
    then show ?thesis by (simp add: xs unreserved_pass_def cons_result_def)
  next
    case (Some r)
    then have al: "isalnum_cp lib a" "isalnum_cp lib b"
      by (auto simp: escape_char_def split: if_splits)
    then have ne: "a \<noteq> 37" "b \<noteq> 37" using isalnum_cp_percent by auto
    then have "bad_escape lib (a # b # rest) = bad_escape lib rest"
      by (simp add: bad_escape_Cons_other)
    with Some show ?thesis
      by (cases r) (auto simp: xs unreserved_pass_def cons_result_def)
  qed
qed

text \<open>
  \<^verbatim>\<open>unquote_unreserved\<close> raises \<^verbatim>\<open>ValueError\<close> exactly on a string with an escape that has no
  value, and otherwise returns the string with the escapes of unreserved characters
  decoded.
\<close>

lemma unquote_unreserved_pass: "unquote_unreserved lib s = unreserved_pass lib s"
proof (induction s rule: length_induct)
  case (1 s)
  show ?case
  proof (cases s)
    case Nil
    then show ?thesis by (simp add: unquote_unreserved_Nil unreserved_pass_def)
  next
    case (Cons c cs)
    show ?thesis
    proof (cases "c = 37")
      case False
      with Cons 1 show ?thesis
        by (simp add: unquote_unreserved_Cons_other unreserved_pass_Cons_other)
    next
      case True
      have IH: "unquote_unreserved lib ys = unreserved_pass lib ys"
        if "length ys \<le> length cs" for ys
        using 1 Cons that by simp
      show ?thesis unfolding Cons True
        by (simp add: unquote_unreserved_percent_escape unreserved_pass_percent_escape IH
            split: list.splits option.splits sum.splits)
    qed
  qed
qed

subsection \<open>What \<^verbatim>\<open>requote_uri\<close> returns\<close>

lemma utf8_encode_cp_Inl:
  "utf8_encode_cp c = Inl e \<longleftrightarrow> e = UnicodeEncodeError \<and> 0x800 \<le> c \<and> \<not> scalar_value c"
  by (auto simp: utf8_encode_cp_def)

lemma utf8_encode_Inl:
  "utf8_encode s = Inl e \<longleftrightarrow>
     e = UnicodeEncodeError \<and> (\<exists>c \<in> set s. 0x800 \<le> c \<and> \<not> scalar_value c)"
proof (induction s)
  case Nil
  then show ?case by simp
next
  case (Cons c cs)
  show ?case
  proof (cases "utf8_encode_cp c")
    case (Inl e')
    then show ?thesis using utf8_encode_cp_Inl [of c e'] by auto
  next
    case (Inr bs)
    then have "\<not> (0x800 \<le> c \<and> \<not> scalar_value c)"
      using utf8_encode_cp_Inl [of c UnicodeEncodeError] by auto
    with Inr Cons show ?thesis by (auto split: sum.splits)
  qed
qed

lemma quote_Inl:
  "quote s safe = Inl e \<longleftrightarrow>
     e = UnicodeEncodeError \<and> (\<exists>c \<in> set s. 0x800 \<le> c \<and> \<not> scalar_value c)"
  using utf8_encode_Inl [of s e] by (auto simp: quote_def split: sum.splits)

lemma unreserved_decoded_set:
  "c \<in> set (unreserved_decoded lib s) \<Longrightarrow> c \<in> set s \<or> UNRESERVED_SET c"
  by (induction lib s rule: unreserved_decoded.induct)
    (auto split: option.splits sum.splits if_splits)

lemma UNRESERVED_small: "UNRESERVED_SET c \<Longrightarrow> c < 0x800"
  by (auto simp: char_defs)

text \<open>
  \<^verbatim>\<open>requote_uri\<close> in one equation: with an escape that has no value, the string itself
  quoted with the percent sign not safe; otherwise the string with the escapes of
  unreserved characters decoded, quoted with the percent sign safe. Either \<^verbatim>\<open>quote\<close>
  raises when the string holds a lone surrogate.
\<close>

lemma requote_uri_eq:
  "requote_uri lib s =
     (if bad_escape lib s then quote s safe_without_percent
      else quote (unreserved_decoded lib s) safe_with_percent)"
proof (cases "bad_escape lib s")
  case True
  then show ?thesis
    by (simp add: requote_uri_def unquote_unreserved_pass unreserved_pass_def)
next
  case False
  show ?thesis
  proof (cases "quote (unreserved_decoded lib s) safe_with_percent")
    case (Inr r)
    with False show ?thesis
      by (simp add: requote_uri_def unquote_unreserved_pass unreserved_pass_def)
  next
    case (Inl e)
    then have e: "e = UnicodeEncodeError"
      and "\<exists>c \<in> set (unreserved_decoded lib s). 0x800 \<le> c \<and> \<not> scalar_value c"
      by (simp_all add: quote_Inl)
    then obtain c where "c \<in> set (unreserved_decoded lib s)" "0x800 \<le> c" "\<not> scalar_value c"
      by blast
    then have "c \<in> set s"
      using unreserved_decoded_set [of c lib s] UNRESERVED_small [of c] by auto
    with \<open>0x800 \<le> c\<close> \<open>\<not> scalar_value c\<close>
    have "quote s safe_without_percent = Inl UnicodeEncodeError"
      by (auto simp: quote_Inl)
    with False Inl e show ?thesis
      by (simp add: requote_uri_def unquote_unreserved_pass unreserved_pass_def)
  qed
qed

text \<open>
  C6, as the code has it. For a provider that is applied to the URL (its \<^verbatim>\<open>urlPattern\<close>
  matches, it is not skipped as blocked or by an exception) with \<^verbatim>\<open>ignore_redirections\<close>
  false: if the redirection substitutions changed the string, the changed string goes
  through \<^verbatim>\<open>unquote\<close> once, and what comes out is requoted in one of two ways. When no
  percent sign in it is followed by two alphanumeric characters that are not a number
  in base 16, the escapes of unreserved characters are decoded, and the string is
  quoted with the percent sign kept. Otherwise no escape is decoded, and the string is
  quoted with the percent sign escaped as well. An exception of \<^verbatim>\<open>quote\<close> (a lone
  surrogate) leaves the function; a result consists of unreserved characters, kept
  reserved characters and percent signs only. The provider's other rules work on the
  result. If the substitutions left the string as it was, the other rules work on that
  string, with no decoding or requoting.
\<close>

theorem redirections_unquote_requote:
  assumes "rmatch (pattern p) url"
    and "\<not> (skip_blocked opts \<and> complete p)"
    and "ignore_exceptions opts \<or> \<not> exceptions_loop (exceptions p) url"
    and "\<not> ignore_redirections opts"
  shows "provider_step lib opts p url =
           (let url' = sub_loop (redirections p) group1 url
            in if url' \<noteq> url
               then (case (if bad_escape lib (unquote url')
                           then quote (unquote url') safe_without_percent
                           else quote (unreserved_decoded lib (unquote url'))
                                  safe_with_percent) of
                       Inl e \<Rightarrow> Inl e
                     | Inr u \<Rightarrow> Inr (fields_step opts p u))
               else Inr (fields_step opts p url))
       \<and> (\<forall>u. requote_uri lib (unquote (sub_loop (redirections p) group1 url)) = Inr u
              \<longrightarrow> list_all uri_char u)"
proof -
  have "provider_step lib opts p url =
           (let url' = sub_loop (redirections p) group1 url
            in if url' \<noteq> url
               then (case requote_uri lib (unquote url') of
                       Inl e \<Rightarrow> Inl e
                     | Inr u \<Rightarrow> Inr (fields_step opts p u))
               else Inr (fields_step opts p url))"
    using assms by (auto simp: provider_step_def redirections_step_def Let_def)
  then have step: "provider_step lib opts p url =
           (let url' = sub_loop (redirections p) group1 url
            in if url' \<noteq> url
               then (case (if bad_escape lib (unquote url')
                           then quote (unquote url') safe_without_percent
                           else quote (unreserved_decoded lib (unquote url'))
                                  safe_with_percent) of
                       Inl e \<Rightarrow> Inl e
                     | Inr u \<Rightarrow> Inr (fields_step opts p u))
               else Inr (fields_step opts p url))"
    by (simp only: requote_uri_eq)
  have chars: "\<forall>u. requote_uri lib (unquote (sub_loop (redirections p) group1 url)) = Inr u
              \<longrightarrow> list_all uri_char u"
    by (auto dest: requote_uri_chars)
  from step chars show ?thesis by (rule conjI)
qed

text \<open>
  The theorem at the example provider. A wrapped target is unwrapped and decoded once
  (\<^verbatim>\<open>%257E\<close> becomes \<^verbatim>\<open>%7E\<close>, \<^verbatim>\<open>%252F\<close> becomes \<^verbatim>\<open>%2F\<close>, \<^verbatim>\<open>%20\<close> a space); the requoting
  then decodes \<^verbatim>\<open>%7E\<close>, the escape of an unreserved character, keeps \<^verbatim>\<open>%2F\<close> and quotes
  the space. A URL of the provider that no redirection matches keeps its escapes and
  its space.
\<close>

theorem redirections_unquote_requote_witness:
  "rmatch (pattern demo_provider)
     (lit ''http://r.example/?u=http%3A%2F%2Fa.example%2F%257Ea%20b%252Fc'')
   \<and> \<not> (skip_blocked default_options \<and> complete demo_provider)
   \<and> \<not> exceptions_loop (exceptions demo_provider)
         (lit ''http://r.example/?u=http%3A%2F%2Fa.example%2F%257Ea%20b%252Fc'')
   \<and> \<not> ignore_redirections default_options
   \<and> unquote (sub_loop (redirections demo_provider) group1
        (lit ''http://r.example/?u=http%3A%2F%2Fa.example%2F%257Ea%20b%252Fc''))
      = lit ''http://a.example/%7Ea b%2Fc''
   \<and> \<not> bad_escape demo_lib (lit ''http://a.example/%7Ea b%2Fc'')
   \<and> unreserved_decoded demo_lib (lit ''http://a.example/%7Ea b%2Fc'')
      = lit ''http://a.example/~a b%2Fc''
   \<and> provider_step demo_lib default_options demo_provider
        (lit ''http://r.example/?u=http%3A%2F%2Fa.example%2F%257Ea%20b%252Fc'')
      = Inr (lit ''http://a.example/~a%20b%2Fc'')
   \<and> provider_step demo_lib default_options demo_provider (lit ''http://r.example/%7Ea b'')
      = Inr (lit ''http://r.example/%7Ea b'')"
  using redirections_unquote_requote
    [of demo_provider
        "lit ''http://r.example/?u=http%3A%2F%2Fa.example%2F%257Ea%20b%252Fc''"
        default_options demo_lib]
  by (simp add: demo_defs rules_defs quote_defs char_defs escape_char_def)

text \<open>
  C6 as it is stated fails on a changed string that, decoded once, holds an escape
  without a value: here \<^verbatim>\<open>%zz\<close>, next to \<^verbatim>\<open>%7E\<close>, the escape of the unreserved tilde.
  The unquote pass raises, so \<^verbatim>\<open>%7E\<close> is not decoded, and both percent signs are
  escaped.
\<close>

theorem requote_fallback_counterexample:
  "sub_loop (redirections demo_provider) group1
     (lit ''http://r.example/?u=http://a.example/%257E%25zz'')
   = lit ''http://a.example/%257E%25zz''
   \<and> unquote (lit ''http://a.example/%257E%25zz'') = lit ''http://a.example/%7E%zz''
   \<and> hexval 55 = Some 7 \<and> hexval 69 = Some 14 \<and> UNRESERVED_SET (16 * 7 + 14)
   \<and> provider_step demo_lib default_options demo_provider
        (lit ''http://r.example/?u=http://a.example/%257E%25zz'')
      = Inr (lit ''http://a.example/%257E%25zz'')"
  by (simp add: demo_defs rules_defs quote_defs char_defs)

section \<open>\<^verbatim>\<open>skip_local\<close>\<close>

text \<open>
  C2 asks that \<^verbatim>\<open>skip_local\<close> return the input exactly when its host is private or
  local. The condition of the source tests a coroutine object, so with \<^verbatim>\<open>skip_local\<close> the
  input is returned whatever its host is.
\<close>

theorem skip_local_returns_every_url:
  assumes "skip_local opts"
  shows "parse_rules lib cfg opts url = Inr url"
  using assms by (simp add: parse_rules_def)

text \<open>
  The theorem at a URL whose host is neither an address nor a local domain, so that
  \<^verbatim>\<open>is_private\<close> gives \<^verbatim>\<open>False\<close>: with \<^verbatim>\<open>skip_local\<close> it comes back as it is, and without
  the option the rules rewrite it.
\<close>

theorem skip_local_returns_every_url_witness:
  "skip_local (default_options\<lparr>skip_local := True\<rparr>)
   \<and> is_private demo_lib demo_cfg (lit ''http://r.example/?u=http://a.example/'') = Inr False
   \<and> parse_rules demo_lib demo_cfg (default_options\<lparr>skip_local := True\<rparr>)
        (lit ''http://r.example/?u=http://a.example/'')
      = Inr (lit ''http://r.example/?u=http://a.example/'')
   \<and> parse_rules demo_lib demo_cfg default_options
        (lit ''http://r.example/?u=http://a.example/'')
      = Inr (lit ''http://a.example/'')"
  using skip_local_returns_every_url
    [of "default_options\<lparr>skip_local := True\<rparr>" demo_lib demo_cfg
        "lit ''http://r.example/?u=http://a.example/''"]
  by (simp add: demo_defs rules_defs quote_defs char_defs is_private_def url_defs)

lemma providers_loop_skipping_options:
  "providers_loop lib skipping_options ps url = Inr url"
  by (induction ps)
    (auto simp: provider_step_def redirections_step_def fields_step_def skipping_options_def)

text \<open>
  With \<^verbatim>\<open>skip_local\<close> false and every other option at its skipping value, the result is
  the global replacements applied to the input.
\<close>

lemma parse_rules_skipping_options:
  "parse_rules lib cfg skipping_options url = Inr (replacements_loop (replacements cfg) url)"
  by (simp add: parse_rules_def providers_loop_skipping_options)
    (simp add: skipping_options_def)

text \<open>
  C9 asks that the global replacements be applied to a URL whose host is not private
  or local whatever the options are. On such a URL, with every option at its skipping
  value: the replacement is applied when \<^verbatim>\<open>skip_local\<close> is false, and it is not when
  \<^verbatim>\<open>skip_local\<close> is true, although \<^verbatim>\<open>is_private\<close> gives \<^verbatim>\<open>False\<close>.
\<close>

theorem skip_local_disables_replacements:
  "is_private demo_lib demo_cfg (lit ''http://a.example/?x=1&&y=2'') = Inr False
   \<and> parse_rules demo_lib demo_cfg skipping_options (lit ''http://a.example/?x=1&&y=2'')
      = Inr (lit ''http://a.example/?x=1&y=2'')
   \<and> parse_rules demo_lib demo_cfg (skipping_options\<lparr>skip_local := True\<rparr>)
        (lit ''http://a.example/?x=1&&y=2'')
      = Inr (lit ''http://a.example/?x=1&&y=2'')"
  by (simp add: demo_defs rules_defs is_private_def url_defs char_defs)

section \<open>Redirect to a location that starts with two slashes\<close>

lemma startswith_double_slash:
  assumes "startswith location (lit ''//'')"
  shows "startswith location (lit ''/'')"
    and "\<not> startswith location (lit ''http://'')"
    and "\<not> startswith location (lit ''https://'')"
    and "location \<noteq> []" and "take 1 location = lit ''/''"
  using assms by (cases location; cases "tl location"; auto simp: startswith_def)+

text \<open>
  A location that starts with \<^verbatim>\<open>//\<close> also starts with \<^verbatim>\<open>/\<close>, and no branch comes before
  that one for it: the whole location, slashes included, becomes the path after the
  current netloc.
\<close>

lemma redirect_target_double_slash:
  assumes "startswith location (lit ''//'')" and "netloc \<noteq> []" and "scheme \<noteq> []"
  shows "redirect_target lib scheme netloc path location
           = scheme @ lit ''://'' @ netloc @ location"
  using assms(2,3) startswith_double_slash [OF assms(1)]
  by (simp add: redirect_target_def urlunparse_def urlunsplit_def)

text \<open>
  C4 asks that a location that starts with \<^verbatim>\<open>//\<close> be resolved as netloc and path on
  the scheme of the current URL. For the redirect of the repository's test, from
  \<^verbatim>\<open>http://127.2.0.1:56885/i-dont-know-its-name-redirect\<close> to the location
  \<^verbatim>\<open>//127.2.0.1:56885/redirect-to-tracking\<close>, the code builds a URL on the current netloc
  whose path is the whole location, and that path is what the next request asks for.
\<close>

theorem double_slash_location_becomes_path:
  "redirect_target demo_lib (lit ''http'') (lit ''127.2.0.1:56885'')
     (lit ''/i-dont-know-its-name-redirect'') (lit ''//127.2.0.1:56885/redirect-to-tracking'')
   = lit ''http://127.2.0.1:56885//127.2.0.1:56885/redirect-to-tracking''
   \<and> follow_redirect demo_lib demo_cfg default_options
       (lit ''http'', lit ''127.2.0.1:56885'', lit ''/i-dont-know-its-name-redirect'', [], [], [])
       (lit ''//127.2.0.1:56885/redirect-to-tracking'')
     = Inr (lit ''http'', lit ''127.2.0.1:56885'',
            lit ''//127.2.0.1:56885/redirect-to-tracking'', [], [], [])"
  by (simp add: follow_redirect_def redirect_target_def demo_defs rules_defs url_defs char_defs)

section \<open>A second pass of \<^verbatim>\<open>parse_rules\<close>\<close>

lemma providers_loop_unchanged:
  "list_all (\<lambda>p. provider_step lib opts p r = Inr r) ps \<Longrightarrow> providers_loop lib opts ps r = Inr r"
  by (induction ps) auto

lemma replacements_loop_unchanged:
  "list_all (\<lambda>(pat, replacement). rsub pat replacement r = r) reps
     \<Longrightarrow> replacements_loop reps r = r"
  by (induction reps) auto

text \<open>
  C1, as the code has it. A second pass returns what the first pass returned whenever
  that string is clean in the sense that no provider on its own and no global
  replacement on its own changes it; this is so, for one, when no \<^verbatim>\<open>urlPattern\<close> matches
  it.
\<close>

theorem second_pass_on_clean_url:
  assumes "parse_rules lib cfg default_options u = Inr r"
    and "list_all (\<lambda>p. provider_step lib default_options p r = Inr r) (patterns cfg)"
    and "list_all (\<lambda>(pat, replacement). rsub pat replacement r = r) (replacements cfg)"
  shows "parse_rules lib cfg default_options r = parse_rules lib cfg default_options u"
  using assms
  by (simp add: parse_rules_def providers_loop_unchanged replacements_loop_unchanged
      default_options_def)

text \<open>The theorem at the example rules and a redirector URL with one target.\<close>

theorem second_pass_on_clean_url_witness:
  "parse_rules demo_lib demo_cfg default_options
     (lit ''http://r.example/?u=http%3A%2F%2Fa.example%2F%3Fx%3D1%26%26y%3D2'')
   = Inr (lit ''http://a.example/?x=1&y=2'')
   \<and> list_all (\<lambda>p. provider_step demo_lib default_options p (lit ''http://a.example/?x=1&y=2'')
                     = Inr (lit ''http://a.example/?x=1&y=2'')) (patterns demo_cfg)
   \<and> list_all (\<lambda>(pat, replacement). rsub pat replacement (lit ''http://a.example/?x=1&y=2'')
                     = lit ''http://a.example/?x=1&y=2'') (replacements demo_cfg)
   \<and> parse_rules demo_lib demo_cfg default_options (lit ''http://a.example/?x=1&y=2'')
      = Inr (lit ''http://a.example/?x=1&y=2'')"
  using second_pass_on_clean_url
    [of demo_lib demo_cfg
        "lit ''http://r.example/?u=http%3A%2F%2Fa.example%2F%3Fx%3D1%26%26y%3D2''"
        "lit ''http://a.example/?x=1&y=2''"]
  by (simp add: demo_defs rules_defs quote_defs char_defs)

text \<open>
  C1 as it is stated fails on a redirector URL whose target is a redirector URL
  again: each pass unwraps one level, so the second pass changes what the first
  returned.
\<close>

theorem parse_rules_twice_counterexample:
  "parse_rules demo_lib demo_cfg default_options
     (lit ''http://r.example/?u=http%3A%2F%2Fr.example%2F%3Fu%3Dhttp%253A%252F%252Fa.example%252F'')
   = Inr (lit ''http://r.example/?u=http%3A%2F%2Fa.example%2F'')
   \<and> parse_rules demo_lib demo_cfg default_options
        (lit ''http://r.example/?u=http%3A%2F%2Fa.example%2F'')
      = Inr (lit ''http://a.example/'')
   \<and> lit ''http://a.example/'' \<noteq> lit ''http://r.example/?u=http%3A%2F%2Fa.example%2F''"
  by (simp add: demo_defs rules_defs quote_defs char_defs)

text \<open>The library parameters play no part in it.\<close>

lemma parse_rules_twice:
  "parse_rules lib demo_cfg default_options
     (lit ''http://r.example/?u=http%3A%2F%2Fr.example%2F%3Fu%3Dhttp%253A%252F%252Fa.example%252F'')
   = Inr (lit ''http://r.example/?u=http%3A%2F%2Fa.example%2F'')
   \<and> parse_rules lib demo_cfg default_options
        (lit ''http://r.example/?u=http%3A%2F%2Fa.example%2F'')
      = Inr (lit ''http://a.example/'')"
  by (simp add: demo_cfg_def demo_provider_def re_run_def re_prefix_group_def
      default_options_def rules_defs quote_defs char_defs)

section \<open>Schemes that \<^verbatim>\<open>parse_url\<close> rejects\<close>

lemma lower_cp_facts:
  "is_alpha c \<Longrightarrow> is_alpha (lower_cp c)"
  "scheme_chars c \<Longrightarrow> scheme_chars (lower_cp c)"
  "lower_cp (lower_cp c) = lower_cp c"
  by (auto simp: char_defs)

lemma is_scheme_lower:
  assumes "xs \<noteq> []" and "is_alpha (hd xs)" and "list_all scheme_chars xs"
  shows "is_scheme (map lower_cp xs)"
  using assms by (cases xs) (auto simp: is_scheme_def lower_cp_facts list_all_iff)

lemma split_scheme_result:
  assumes "split_scheme url sch = (s, rest)"
  shows "(s = sch \<and> rest = url) \<or> is_scheme s"
proof (cases "find_char 58 url")
  case None
  with assms show ?thesis by (simp add: split_scheme_def)
next
  case (Some i)
  show ?thesis
  proof (cases "0 < i \<and> is_alpha (hd url) \<and> list_all scheme_chars (take i url)")
    case False
    with Some assms show ?thesis by (auto simp: split_scheme_def)
  next
    case True
    from Some have "url \<noteq> []" by (auto simp: find_char_def split: if_splits)
    with True have "take i url \<noteq> []" "hd (take i url) = hd url"
      by (cases url; auto)+
    with True have "is_scheme (map lower_cp (take i url))"
      by (auto intro: is_scheme_lower)
    moreover from True Some assms have "s = map lower_cp (take i url)"
      by (simp add: split_scheme_def)
    ultimately show ?thesis by simp
  qed
qed

lemma urlsplit_scheme:
  assumes "urlsplit lib u sch = Inr (s, n, p, q, f)"
  shows "s = remove_unsafe (strip_c0 sch) \<or> is_scheme s"
proof -
  obtain s' rest where sp:
    "split_scheme (remove_unsafe (lstrip_c0 u)) (remove_unsafe (strip_c0 sch)) = (s', rest)"
    by (cases "split_scheme (remove_unsafe (lstrip_c0 u)) (remove_unsafe (strip_c0 sch))")
  with assms have "s = s'"
    by (auto simp: urlsplit_def Let_def split: if_splits prod.splits)
  with split_scheme_result [OF sp] show ?thesis by auto
qed

lemma urlparse_scheme:
  assumes "urlparse lib u sch = Inr (s, n, p, pa, q, f)"
  shows "s = remove_unsafe (strip_c0 sch) \<or> is_scheme s"
  using assms
  by (auto simp: urlparse_def Let_def split: sum.splits prod.splits if_splits
      dest: urlsplit_scheme)

lemma scheme_chars_facts:
  assumes "scheme_chars c"
  shows "c \<noteq> 58" and "\<not> c \<le> 32" and "c \<noteq> 9 \<and> c \<noteq> 13 \<and> c \<noteq> 10"
  using assms by (auto simp: char_defs)

lemma is_scheme_prefix:
  assumes "is_scheme s"
  shows "remove_unsafe (lstrip_c0 (s @ 58 # rest)) = s @ 58 # remove_unsafe rest"
    and "split_scheme (s @ 58 # rest') sch = (s, rest')"
proof -
  from assms obtain c cs where s: "s = c # cs" by (cases s) (auto simp: is_scheme_def)
  from assms have all: "\<forall>x \<in> set s. scheme_chars x" by (simp add: is_scheme_def list_all_iff)
  with s have "\<not> c \<le> 32" by (auto dest: scheme_chars_facts)
  then have "lstrip_c0 (s @ 58 # rest) = s @ 58 # rest" by (simp add: lstrip_c0_def s)
  moreover from all have "filter (\<lambda>c. c \<noteq> 9 \<and> c \<noteq> 13 \<and> c \<noteq> 10) s = s"
    by (auto simp: filter_id_conv dest: scheme_chars_facts)
  ultimately show "remove_unsafe (lstrip_c0 (s @ 58 # rest)) = s @ 58 # remove_unsafe rest"
    by (simp add: remove_unsafe_def)
  from all have no_colon: "\<forall>x \<in> set s. x \<noteq> 58" by (auto dest: scheme_chars_facts)
  then have tw: "takeWhile (\<lambda>x. x \<noteq> 58) (s @ 58 # rest') = s"
    by (simp add: takeWhile_append2)
  then have "find_char 58 (s @ 58 # rest') = Some (length s)" by (simp add: find_char_def)
  moreover from assms have "0 < length s" "is_alpha (hd (s @ 58 # rest'))"
    "list_all scheme_chars (take (length s) (s @ 58 # rest'))" "map lower_cp s = s"
    by (auto simp: is_scheme_def s)
  ultimately show "split_scheme (s @ 58 # rest') sch = (s, rest')"
    by (simp add: split_scheme_def)
qed

lemma urlsplit_keeps_scheme:
  assumes "is_scheme s" and "urlsplit lib (s @ 58 # rest) sch = Inr (s', n, p, q, f)"
  shows "s' = s"
  using assms(2) is_scheme_prefix [OF assms(1)]
  by (auto simp: urlsplit_def Let_def split: if_splits prod.splits)

lemma urlparse_keeps_scheme:
  assumes "is_scheme s" and "urlparse lib (s @ 58 # rest) sch = Inr (s', n, p, pa, q, f)"
  shows "s' = s"
  using assms
  by (auto simp: urlparse_def Let_def split: sum.splits prod.splits if_splits
      dest: urlsplit_keeps_scheme)

lemma urlunparse_scheme_prefix:
  assumes "s \<noteq> []"
  shows "\<exists>rest. urlunparse lib (s, n, p, pa, q, f) = s @ 58 # rest"
  using assms by (simp add: urlunparse_def urlunsplit_def Let_def)

lemma default_scheme_allowed:
  "remove_unsafe (strip_c0 (lit ''http'')) \<in> set allowed_schemes"
  by (simp add: remove_unsafe_def strip_c0_def lstrip_c0_def allowed_schemes_def)

text \<open>
  What the code does for C8 on the inputs that \<^verbatim>\<open>urllib\<close> accepts throughout: for a string
  that is not empty and whose scheme, read with http as the default, is neither http
  nor https, \<^verbatim>\<open>clear_url\<close> raises \<^verbatim>\<open>InvalidScheme\<close> unless \<^verbatim>\<open>parse_url\<close> ends in a
  \<^verbatim>\<open>ValueError\<close> of \<^verbatim>\<open>urllib\<close>.
\<close>

lemma clear_url_invalid_scheme:
  assumes "u \<noteq> []"
    and "urlparse lib u (lit ''http'') = Inr (scheme, netloc, path, params, query, fragment)"
    and "scheme \<notin> set allowed_schemes"
    and "parse_url lib (Str u) \<noteq> Inl ValueError"
  shows "clear_url lib cfg opts (Str u) = Inl InvalidScheme"
proof -
  from urlparse_scheme [OF assms(2)] assms(3) have sch: "is_scheme scheme"
    using default_scheme_allowed by auto
  then have ne: "scheme \<noteq> []" by (simp add: is_scheme_def)
  obtain n1 p1 where swap:
    "(if netloc = [] then (path, netloc) else (netloc, path)) = (n1, p1)"
    by (cases "if netloc = [] then (path, netloc) else (netloc, path)")
  obtain r1 where u1: "urlunparse lib (scheme, n1, p1, params, query, fragment) = scheme @ 58 # r1"
    using urlunparse_scheme_prefix [OF ne] by blast
  have pre: "prepend_scheme_if_needed lib u (lit ''http'') = Inr (scheme @ 58 # r1)"
    using assms(2) swap u1 by (simp add: prepend_scheme_if_needed_def)
  show ?thesis
  proof (cases "urlparse lib (scheme @ 58 # r1) []")
    case (Inl e)
    then have "e = ValueError"
      by (auto simp: urlparse_def urlsplit_def Let_def split: sum.splits if_splits prod.splits)
    with Inl pre assms(1,4) show ?thesis
      by (simp add: parse_url_def urldefragauth_def)
  next
    case (Inr t)
    obtain s2 n2 p2 pa2 q2 f2 where t: "t = (s2, n2, p2, pa2, q2, f2)" by (cases t)
    with Inr sch have s2: "s2 = scheme" by (auto dest: urlparse_keeps_scheme)
    obtain n3 p3 where swap2: "(if n2 = [] then (p2, n2) else (n2, p2)) = (n3, p3)"
      by (cases "if n2 = [] then (p2, n2) else (n2, p2)")
    obtain r2 where u2:
      "urlunparse lib (scheme, rsplit_last 64 n3, p3, pa2, q2, []) = scheme @ 58 # r2"
      using urlunparse_scheme_prefix [OF ne] by blast
    have defrag: "urldefragauth lib (scheme @ 58 # r1) = Inr (scheme @ 58 # r2)"
      using Inr t s2 swap2 u2 by (simp add: urldefragauth_def)
    show ?thesis
    proof (cases "urlparse lib (scheme @ 58 # r2) []")
      case (Inl e)
      then have "e = ValueError"
        by (auto simp: urlparse_def urlsplit_def Let_def split: sum.splits if_splits prod.splits)
      with Inl pre defrag assms(1,4) show ?thesis by (simp add: parse_url_def)
    next
      case (Inr t')
      obtain s4 n4 p4 pa4 q4 f4 where t': "t' = (s4, n4, p4, pa4, q4, f4)" by (cases t')
      with Inr sch have "s4 = scheme" by (auto dest: urlparse_keeps_scheme)
      with Inr t' pre defrag assms(1,3) show ?thesis
        by (simp add: clear_url_def parse_url_def)
    qed
  qed
qed

text \<open>
  The claim's own example: \<^verbatim>\<open>ftp://example.com\<close> ends in \<^verbatim>\<open>InvalidScheme\<close> whenever
  \<^verbatim>\<open>urlsplit\<close> accepts the netloc \<^verbatim>\<open>example.com\<close>.
\<close>

lemma clear_url_ftp_example:
  assumes "\<not> netloc_rejected lib (lit ''example.com'')"
  shows "clear_url lib cfg opts (Str (lit ''ftp://example.com'')) = Inl InvalidScheme"
  using assms by (simp add: clear_url_def url_defs char_defs)

text \<open>
  C8 asks for \<^verbatim>\<open>InvalidScheme\<close> on every input whose scheme is neither http nor https,
  and the docstrings of \<^verbatim>\<open>parse_url\<close> and \<^verbatim>\<open>clear_url\<close> name \<^verbatim>\<open>InvalidURL\<close> and
  \<^verbatim>\<open>InvalidScheme\<close> as what they raise. On \<^verbatim>\<open>ftp:[abc\<close> the scheme is ftp;
  \<^verbatim>\<open>prepend_scheme_if_needed\<close> finds no netloc and moves the path there, which gives
  \<^verbatim>\<open>ftp://[abc\<close>, and on that string \<^verbatim>\<open>urlparse\<close> raises \<^verbatim>\<open>ValueError\<close> (Invalid IPv6 URL)
  inside \<^verbatim>\<open>urldefragauth\<close>, which nothing catches: \<^verbatim>\<open>clear_url\<close> ends in \<^verbatim>\<open>ValueError\<close>.
  Neither the rules nor the options nor the library parameters play a part in it.
\<close>

theorem clear_url_ftp_bracket:
  "urlparse lib (lit ''ftp:[abc'') (lit ''http'')
     = Inr (lit ''ftp'', [], lit ''[abc'', [], [], [])
   \<and> lit ''ftp'' \<notin> set allowed_schemes
   \<and> prepend_scheme_if_needed lib (lit ''ftp:[abc'') (lit ''http'')
      = Inr (lit ''ftp://[abc'')
   \<and> urldefragauth lib (lit ''ftp://[abc'') = Inl ValueError
   \<and> clear_url lib cfg opts (Str (lit ''ftp:[abc'')) = Inl ValueError"
  by (simp add: clear_url_def url_defs char_defs)

end
